theory Spec2Isabelle
  imports Complex_Main "HOL-Library.Word"
begin

section \<open>Data model\<close>

text \<open>
  The two sketches (\<^verbatim>\<open>esp32_monitor.ino\<close>, the serial variant, and
  \<^verbatim>\<open>esp32_monitor_wifi.ino\<close>, the network variant) target the ESP32. There
  \<^verbatim>\<open>int\<close> and \<^verbatim>\<open>long\<close> have 32 bits and \<^verbatim>\<open>unsigned long\<close> is an unsigned
  32-bit integer.

  \<^item> The \<^verbatim>\<open>int\<close> fields of \<^verbatim>\<open>VitalData\<close> are modelled by \<open>int\<close>: the only arithmetic
    on them is the remapping of a 12-bit ADC sample and one subtraction of 40, neither
    of which can leave the 32-bit range.
  \<^item> \<^verbatim>\<open>unsigned long\<close> values (the result of \<^verbatim>\<open>millis()\<close>, the timers, the
    timestamp) are \<open>32 word\<close>: subtraction and the clock itself wrap around.
  \<^item> A \<^verbatim>\<open>float\<close> is represented by its IEEE-754 single precision bit pattern; the
    literal \<^verbatim>\<open>0\<close> assigned to a float is the pattern \<open>0\<close> (positive zero). The one
    floating point operation that is evaluated is the conversion of a \<^verbatim>\<open>float\<close> to
    \<^verbatim>\<open>int\<close>, which the assignment \<^verbatim>\<open>vitals.heartRate = pox.getHeartRate()\<close> performs.
\<close>

type_synonym float32 = "32 word"
type_synonym float64 = "64 word"

text \<open>
  The value of a single precision number: bit 31 is the sign, bits 30 to 23 the biased
  exponent and bits 22 to 0 the fraction. An exponent of 255 encodes the infinities
  and the NaNs, which have no value; an exponent of 0 encodes zero and the subnormal
  numbers.
\<close>

definition float32_exponent :: "float32 \<Rightarrow> nat" where
  "float32_exponent w = (unat w div 2 ^ 23) mod 2 ^ 8"

definition float32_fraction :: "float32 \<Rightarrow> nat" where
  "float32_fraction w = unat w mod 2 ^ 23"

definition float32_negative :: "float32 \<Rightarrow> bool" where
  "float32_negative w = (2 ^ 31 \<le> unat w)"

definition float32_finite :: "float32 \<Rightarrow> bool" where
  "float32_finite w = (float32_exponent w \<noteq> 255)"

definition float32_value :: "float32 \<Rightarrow> rat" where
  "float32_value w =
     (let magnitude =
            (if float32_exponent w = 0 then rat_of_nat (float32_fraction w) / 2 ^ 149
             else rat_of_nat (2 ^ 23 + float32_fraction w) * 2 ^ float32_exponent w / 2 ^ 150)
      in if float32_negative w then - magnitude else magnitude)"

text \<open>C discards the fractional part when it converts a floating point value to an integer.\<close>

definition c_trunc :: "rat \<Rightarrow> int" where
  "c_trunc x = (if 0 \<le> x then \<lfloor>x\<rfloor> else \<lceil>x\<rceil>)"

record VitalData =
  heartRate :: int
  bpSystolic :: int
  bpDiastolic :: int
  temperature :: float32
  oxygenSaturation :: int
  respiratoryRate :: int
  ecgValue :: int
  ecgLeadsConnected :: bool
  timestamp :: "32 word"

text \<open>
  The JSON document built before each transmission, one field per key
  (\<^verbatim>\<open>doc["hr"]\<close> is \<open>doc_hr\<close>, \<^verbatim>\<open>doc["sensors"]["mlx90614"]\<close> is
  \<open>doc_sensors_mlx90614\<close>). The key \<^verbatim>\<open>device_id\<close> exists in the network variant only.
\<close>

record telemetry =
  doc_hr :: int
  doc_bp_sys :: int
  doc_bp_dia :: int
  doc_temp :: float64
  doc_spo2 :: int
  doc_rr :: int
  doc_ecg :: int
  doc_ecg_leads :: bool
  doc_timestamp :: "32 word"
  doc_device_id :: "string option"
  doc_sensors_mlx90614 :: bool
  doc_sensors_max30100 :: bool

subsection \<open>Pins and intervals\<close>

abbreviation (input) BP_SENSOR_PIN :: nat where "BP_SENSOR_PIN \<equiv> 34"
abbreviation (input) RESP_SENSOR_PIN :: nat where "RESP_SENSOR_PIN \<equiv> 35"
abbreviation (input) ECG_OUTPUT_PIN :: nat where "ECG_OUTPUT_PIN \<equiv> 36"
abbreviation (input) ECG_LO_PLUS_PIN :: nat where "ECG_LO_PLUS_PIN \<equiv> 39"
abbreviation (input) ECG_LO_MINUS_PIN :: nat where "ECG_LO_MINUS_PIN \<equiv> 32"
abbreviation (input) LED_PIN :: nat where "LED_PIN \<equiv> 2"

abbreviation (input) HIGH :: bool where "HIGH \<equiv> True"
abbreviation (input) LOW :: bool where "LOW \<equiv> False"

abbreviation (input) READ_INTERVAL :: "32 word" where "READ_INTERVAL \<equiv> 1000"
abbreviation (input) SEND_INTERVAL :: "32 word" where "SEND_INTERVAL \<equiv> 2000"

section \<open>The hardware as an environment\<close>

text \<open>
  Every call into the board support code or a sensor library is a hardware operation.
  The operations a run performs are recorded in order, each with the value the
  hardware answered, as a list of events. Output on the serial console is grouped
  into one event per message (a message is a run of consecutive \<^verbatim>\<open>Serial.print\<close>
  and \<^verbatim>\<open>Serial.println\<close> calls, together with the calls that only compute what is
  printed, \<^verbatim>\<open>WiFi.localIP()\<close> and \<^verbatim>\<open>http.errorToString\<close>); the text of a message
  is not modelled, only which message it is and the numbers printed with it. A JSON
  document is recorded by its fields; the ArduinoJson document is taken to have room
  for every key the sketch stores.
\<close>

datatype pin_mode = INPUT | OUTPUT

datatype log_msg =
    Banner
  | Mlx_Connected | Mlx_Not_Found
  | Pox_Connected | Pox_Not_Found
  | Monitor_Ready
  | WiFi_Disconnected_Reconnecting
  | Connecting_To_WiFi
  | Dot
  | WiFi_Connected
  | WiFi_Connection_Failed
  | Data_Sent int
  | Error_Sending int
  | Vitals_Line int int int float32 int int

datatype event =
    Millis "32 word"
  | Delay nat
  | PinMode nat pin_mode
  | DigitalWrite nat bool
  | DigitalRead nat bool
  | AnalogRead nat "12 word"
  | SerialBegin nat
  | SerialReady bool
  | SerialLog log_msg
  | SerialJson telemetry
  | WireBegin
  | MlxBegin bool
  | PoxBegin bool
  | MlxReadObjectTempC float32
  | PoxGetHeartRate float32
  | PoxGetSpO2 "8 word"
  | PoxUpdate
  | WiFiBegin
  | WiFiStatus bool
  | HttpBegin
  | HttpAddHeader
  | HttpPost telemetry int
  | HttpEnd

text \<open>
  The environment fixes what the hardware answers. Answers are indexed by the number
  of operations performed so far, so that no two operations of a run are forced to
  agree. \<open>latency env k\<close> is the time in milliseconds that operation number \<open>k\<close>
  takes (for a \<^verbatim>\<open>delay(n)\<close>, the time beyond the requested \<open>n\<close>).

  \<^item> \<open>analog_in\<close>: the ESP32 ADC delivers 12-bit samples, hence \<open>12 word\<close>.
  \<^item> \<open>wifi_status_connected\<close>: whether \<^verbatim>\<open>WiFi.status()\<close> equals \<^verbatim>\<open>WL_CONNECTED\<close>.
  \<^item> \<open>pox_getHeartRate\<close>: the \<^verbatim>\<open>float\<close> that \<^verbatim>\<open>PulseOximeter::getHeartRate\<close> returns;
    \<open>pox_getSpO2\<close>: the \<^verbatim>\<open>uint8_t\<close> that \<^verbatim>\<open>PulseOximeter::getSpO2\<close> returns.
  \<^item> \<open>int_of_unrepresentable\<close>: the \<^verbatim>\<open>int\<close> that the compiled code produces when
    it converts a \<^verbatim>\<open>float\<close> that has no value or whose integer part does not fit
    \<^verbatim>\<open>int\<close>; C leaves this conversion undefined.
  \<^item> \<open>http_POST\<close>: the \<^verbatim>\<open>int\<close> returned by \<^verbatim>\<open>HTTPClient::POST\<close>.
  \<^item> \<open>round_tenths\<close>: the value of the floating point expression
    \<^verbatim>\<open>round(t * 10) / 10.0\<close>, which is not evaluated here.
\<close>

record env =
  latency :: "nat \<Rightarrow> nat"
  serial_ready :: "nat \<Rightarrow> bool"
  mlx_begin :: "nat \<Rightarrow> bool"
  pox_begin :: "nat \<Rightarrow> bool"
  mlx_readObjectTempC :: "nat \<Rightarrow> float32"
  pox_getHeartRate :: "nat \<Rightarrow> float32"
  pox_getSpO2 :: "nat \<Rightarrow> 8 word"
  int_of_unrepresentable :: "float32 \<Rightarrow> int"
  digital_in :: "nat \<Rightarrow> nat \<Rightarrow> bool"
  analog_in :: "nat \<Rightarrow> nat \<Rightarrow> 12 word"
  wifi_status_connected :: "nat \<Rightarrow> bool"
  http_POST :: "nat \<Rightarrow> telemetry \<Rightarrow> int"
  round_tenths :: "float32 \<Rightarrow> float64"

text \<open>
  The state of a sketch: its global variables, the time since boot in milliseconds
  (unbounded; \<^verbatim>\<open>millis()\<close> returns it modulo \<open>2 ^ 32\<close>) and the events so far.
  The serial variant has no \<open>lastSendTime\<close> and no \<open>wifiConnected\<close>; its functions
  leave these two fields alone.
\<close>

record sys =
  vitals :: VitalData
  lastReadTime :: "32 word"
  lastSendTime :: "32 word"
  mlxConnected :: bool
  poxConnected :: bool
  wifiConnected :: bool
  now :: nat
  trace :: "event list"

text \<open>Globals are zero-initialised; the flags are initialised to \<^verbatim>\<open>false\<close>.\<close>

definition boot :: sys where
  "boot = \<lparr> vitals = \<lparr> heartRate = 0, bpSystolic = 0, bpDiastolic = 0, temperature = 0,
                         oxygenSaturation = 0, respiratoryRate = 0, ecgValue = 0,
                         ecgLeadsConnected = False, timestamp = 0 \<rparr>,
            lastReadTime = 0, lastSendTime = 0,
            mlxConnected = False, poxConnected = False, wifiConnected = False,
            now = 0, trace = [] \<rparr>"

subsection \<open>Hardware operations\<close>

text \<open>
  \<open>emit\<close> performs one operation: the event is appended and the clock advances by the
  requested delay \<open>d\<close> plus the latency of the operation.
\<close>

definition emit :: "env \<Rightarrow> event \<Rightarrow> nat \<Rightarrow> sys \<Rightarrow> sys" where
  "emit env e d s = s\<lparr> now := now s + d + latency env (length (trace s)),
                       trace := trace s @ [e] \<rparr>"

definition millis :: "env \<Rightarrow> sys \<Rightarrow> 32 word \<times> sys" where
  "millis env s = (let t = word_of_nat (now s) in (t, emit env (Millis t) 0 s))"

definition delay :: "env \<Rightarrow> nat \<Rightarrow> sys \<Rightarrow> sys" where
  "delay env n s = emit env (Delay n) n s"

definition pinMode :: "env \<Rightarrow> nat \<Rightarrow> pin_mode \<Rightarrow> sys \<Rightarrow> sys" where
  "pinMode env pin m s = emit env (PinMode pin m) 0 s"

definition digitalWrite :: "env \<Rightarrow> nat \<Rightarrow> bool \<Rightarrow> sys \<Rightarrow> sys" where
  "digitalWrite env pin v s = emit env (DigitalWrite pin v) 0 s"

definition digitalRead :: "env \<Rightarrow> nat \<Rightarrow> sys \<Rightarrow> bool \<times> sys" where
  "digitalRead env pin s =
     (let v = digital_in env pin (length (trace s)) in (v, emit env (DigitalRead pin v) 0 s))"

definition analogRead :: "env \<Rightarrow> nat \<Rightarrow> sys \<Rightarrow> 12 word \<times> sys" where
  "analogRead env pin s =
     (let v = analog_in env pin (length (trace s)) in (v, emit env (AnalogRead pin v) 0 s))"

definition serialLog :: "env \<Rightarrow> log_msg \<Rightarrow> sys \<Rightarrow> sys" where
  "serialLog env m s = emit env (SerialLog m) 0 s"

definition mlxBegin :: "env \<Rightarrow> sys \<Rightarrow> bool \<times> sys" where
  "mlxBegin env s =
     (let v = mlx_begin env (length (trace s)) in (v, emit env (MlxBegin v) 0 s))"

definition poxBegin :: "env \<Rightarrow> sys \<Rightarrow> bool \<times> sys" where
  "poxBegin env s =
     (let v = pox_begin env (length (trace s)) in (v, emit env (PoxBegin v) 0 s))"

definition mlxReadObjectTempC :: "env \<Rightarrow> sys \<Rightarrow> float32 \<times> sys" where
  "mlxReadObjectTempC env s =
     (let v = mlx_readObjectTempC env (length (trace s))
      in (v, emit env (MlxReadObjectTempC v) 0 s))"

definition poxGetHeartRate :: "env \<Rightarrow> sys \<Rightarrow> float32 \<times> sys" where
  "poxGetHeartRate env s =
     (let v = pox_getHeartRate env (length (trace s))
      in (v, emit env (PoxGetHeartRate v) 0 s))"

definition poxGetSpO2 :: "env \<Rightarrow> sys \<Rightarrow> 8 word \<times> sys" where
  "poxGetSpO2 env s =
     (let v = pox_getSpO2 env (length (trace s)) in (v, emit env (PoxGetSpO2 v) 0 s))"

definition poxUpdate :: "env \<Rightarrow> sys \<Rightarrow> sys" where
  "poxUpdate env s = emit env PoxUpdate 0 s"

definition wifiStatus :: "env \<Rightarrow> sys \<Rightarrow> bool \<times> sys" where
  "wifiStatus env s =
     (let v = wifi_status_connected env (length (trace s))
      in (v, emit env (WiFiStatus v) 0 s))"

definition httpPOST :: "env \<Rightarrow> telemetry \<Rightarrow> sys \<Rightarrow> int \<times> sys" where
  "httpPOST env doc s =
     (let v = http_POST env (length (trace s)) doc in (v, emit env (HttpPost doc v) 0 s))"

definition serialBegin :: "env \<Rightarrow> nat \<Rightarrow> sys \<Rightarrow> sys" where
  "serialBegin env baud s = emit env (SerialBegin baud) 0 s"

definition serialReady :: "env \<Rightarrow> sys \<Rightarrow> bool \<times> sys" where
  "serialReady env s =
     (let v = serial_ready env (length (trace s)) in (v, emit env (SerialReady v) 0 s))"

definition serialJson :: "env \<Rightarrow> telemetry \<Rightarrow> sys \<Rightarrow> sys" where
  "serialJson env doc s = emit env (SerialJson doc) 0 s"

definition wireBegin :: "env \<Rightarrow> sys \<Rightarrow> sys" where
  "wireBegin env s = emit env WireBegin 0 s"

definition wifiBegin :: "env \<Rightarrow> sys \<Rightarrow> sys" where
  "wifiBegin env s = emit env WiFiBegin 0 s"

definition httpBegin :: "env \<Rightarrow> sys \<Rightarrow> sys" where
  "httpBegin env s = emit env HttpBegin 0 s"

definition httpAddHeader :: "env \<Rightarrow> sys \<Rightarrow> sys" where
  "httpAddHeader env s = emit env HttpAddHeader 0 s"

definition httpEnd :: "env \<Rightarrow> sys \<Rightarrow> sys" where
  "httpEnd env s = emit env HttpEnd 0 s"

text \<open>
  The conversion of a \<^verbatim>\<open>float\<close> to \<^verbatim>\<open>int\<close>: the value with its fractional part
  discarded, when there is a value and the result fits 32 bits.
\<close>

definition float_to_int :: "env \<Rightarrow> float32 \<Rightarrow> int" where
  "float_to_int env w =
     (if float32_finite w \<and> - (2 ^ 31) \<le> c_trunc (float32_value w) \<and>
         c_trunc (float32_value w) < 2 ^ 31
      then c_trunc (float32_value w) else int_of_unrepresentable env w)"

text \<open>
  The Arduino core's \<^verbatim>\<open>long map(long x, long in_min, long in_max, long out_min, long out_max)\<close>:
  \<^verbatim>\<open>(x - in_min) * (out_max - out_min) / (in_max - in_min) + out_min\<close> in \<^verbatim>\<open>long\<close>
  arithmetic, with C's division, which truncates towards zero; the ESP32 core returns
  \<open>-1\<close> for an empty input range. The core is not part of the repository.
\<close>

definition c_div :: "int \<Rightarrow> int \<Rightarrow> int" where
  "c_div a b = (if (a < 0) = (b < 0) then \<bar>a\<bar> div \<bar>b\<bar> else - (\<bar>a\<bar> div \<bar>b\<bar>))"

definition map_long :: "int \<Rightarrow> int \<Rightarrow> int \<Rightarrow> int \<Rightarrow> int \<Rightarrow> int" where
  "map_long x in_min in_max out_min out_max =
     (if in_max - in_min = 0 then - 1
      else c_div ((x - in_min) * (out_max - out_min)) (in_max - in_min) + out_min)"

section \<open>Sampling (both variants)\<close>

text \<open>
  \<^verbatim>\<open>readBloodPressure\<close>, \<^verbatim>\<open>readRespiratoryRate\<close>, \<^verbatim>\<open>readECGData\<close> and
  \<^verbatim>\<open>readAllSensors\<close> have the same text in both sketches. A function of the
  sketches that returns a value is a function from the state to the value and the
  new state; a sequence of statements is a chain of \<open>let\<close>s, one state per statement.
\<close>

definition readBloodPressure :: "env \<Rightarrow> sys \<Rightarrow> int \<times> sys" where
  "readBloodPressure env s =
     (let (rawValue, s1) = analogRead env BP_SENSOR_PIN s;
          systolic = map_long (uint rawValue) 0 4095 80 180
      in (systolic, s1))"

definition readRespiratoryRate :: "env \<Rightarrow> sys \<Rightarrow> int \<times> sys" where
  "readRespiratoryRate env s =
     (let (rawValue, s1) = analogRead env RESP_SENSOR_PIN s;
          rate = map_long (uint rawValue) 0 4095 8 25
      in (rate, s1))"

definition readECGData :: "env \<Rightarrow> sys \<Rightarrow> sys" where
  "readECGData env s =
     (let (loPlus, s1) = digitalRead env ECG_LO_PLUS_PIN s;
          (loMinus, s2) = digitalRead env ECG_LO_MINUS_PIN s1
      in if loPlus = HIGH \<or> loMinus = HIGH
         then s2\<lparr> vitals := (vitals s2)\<lparr> ecgLeadsConnected := False, ecgValue := 0 \<rparr> \<rparr>
         else (let s3 = s2\<lparr> vitals := (vitals s2)\<lparr> ecgLeadsConnected := True \<rparr> \<rparr>;
                   (v, s4) = analogRead env ECG_OUTPUT_PIN s3
               in s4\<lparr> vitals := (vitals s4)\<lparr> ecgValue := uint v \<rparr> \<rparr>))"

definition readAllSensors :: "env \<Rightarrow> sys \<Rightarrow> sys" where
  "readAllSensors env s =
     (let s1 = (if mlxConnected s
                then (let (t, s') = mlxReadObjectTempC env s
                      in s'\<lparr> vitals := (vitals s')\<lparr> temperature := t \<rparr> \<rparr>)
                else s\<lparr> vitals := (vitals s)\<lparr> temperature := 0 \<rparr> \<rparr>);
          s2 = (if poxConnected s1
                then (let (h, sa) = poxGetHeartRate env s1;
                          sb = sa\<lparr> vitals := (vitals sa)\<lparr> heartRate := float_to_int env h \<rparr> \<rparr>;
                          (sp, sc) = poxGetSpO2 env sb;
                          sd = sc\<lparr> vitals := (vitals sc)\<lparr> oxygenSaturation := uint sp \<rparr> \<rparr>;
                          se = (if heartRate (vitals sd) < 30 \<or> heartRate (vitals sd) > 200
                                then sd\<lparr> vitals := (vitals sd)\<lparr> heartRate := 0 \<rparr> \<rparr>
                                else sd)
                      in if oxygenSaturation (vitals se) < 70 \<or> oxygenSaturation (vitals se) > 100
                         then se\<lparr> vitals := (vitals se)\<lparr> oxygenSaturation := 0 \<rparr> \<rparr>
                         else se)
                else s1\<lparr> vitals := (vitals s1)\<lparr> heartRate := 0, oxygenSaturation := 0 \<rparr> \<rparr>);
          (bp, s3) = readBloodPressure env s2;
          s4 = s3\<lparr> vitals := (vitals s3)\<lparr> bpSystolic := bp \<rparr> \<rparr>;
          s5 = s4\<lparr> vitals := (vitals s4)\<lparr> bpDiastolic := bpSystolic (vitals s4) - 40 \<rparr> \<rparr>;
          (rr, s6) = readRespiratoryRate env s5;
          s7 = s6\<lparr> vitals := (vitals s6)\<lparr> respiratoryRate := rr \<rparr> \<rparr>;
          s8 = readECGData env s7;
          (t, s9) = millis env s8
      in s9\<lparr> vitals := (vitals s9)\<lparr> timestamp := t \<rparr> \<rparr>)"

section \<open>The serial variant\<close>

text \<open>
  Both sketches call their entry points \<^verbatim>\<open>setup\<close> and \<^verbatim>\<open>loop\<close>; here they are
  \<open>setup_serial\<close> and \<open>loop_serial\<close> for \<^verbatim>\<open>esp32_monitor.ino\<close>, \<open>setup_wifi\<close> and
  \<open>loop_wifi\<close> for the network variant.
\<close>

definition sendVitalData :: "env \<Rightarrow> sys \<Rightarrow> sys" where
  "sendVitalData env s =
     (let doc = \<lparr> doc_hr = heartRate (vitals s),
                   doc_bp_sys = bpSystolic (vitals s),
                   doc_bp_dia = bpDiastolic (vitals s),
                   doc_temp = round_tenths env (temperature (vitals s)),
                   doc_spo2 = oxygenSaturation (vitals s),
                   doc_rr = respiratoryRate (vitals s),
                   doc_ecg = ecgValue (vitals s),
                   doc_ecg_leads = ecgLeadsConnected (vitals s),
                   doc_timestamp = timestamp (vitals s),
                   doc_device_id = None,
                   doc_sensors_mlx90614 = mlxConnected s,
                   doc_sensors_max30100 = poxConnected s \<rparr>
      in serialJson env doc s)"

text \<open>
  \<^verbatim>\<open>while (!Serial) { delay(10); }\<close> has no bound: the loop ends only when the port
  reports ready, so its model is a partial function and \<open>None\<close> stands for a
  \<^verbatim>\<open>setup\<close> that never returns.
\<close>

partial_function (option) setup_serial_wait :: "env \<Rightarrow> sys \<Rightarrow> sys option" where
  "setup_serial_wait env s =
     (case serialReady env s of
        (ready, s1) \<Rightarrow> if \<not> ready then setup_serial_wait env (delay env 10 s1) else Some s1)"

definition setup_serial :: "env \<Rightarrow> sys \<Rightarrow> sys option" where
  "setup_serial env s =
     (case setup_serial_wait env (serialBegin env 115200 s) of
        None \<Rightarrow> None
      | Some s1 \<Rightarrow>
          (let s2 = pinMode env LED_PIN OUTPUT s1;
               s3 = digitalWrite env LED_PIN LOW s2;
               s4 = wireBegin env s3;
               (m, s5) = mlxBegin env s4;
               s6 = (if m then serialLog env Mlx_Connected (s5\<lparr> mlxConnected := True \<rparr>)
                     else serialLog env Mlx_Not_Found s5);
               (p, s7) = poxBegin env s6;
               s8 = (if p then serialLog env Pox_Connected (s7\<lparr> poxConnected := True \<rparr>)
                     else serialLog env Pox_Not_Found s7);
               s9 = pinMode env BP_SENSOR_PIN INPUT s8;
               s10 = pinMode env RESP_SENSOR_PIN INPUT s9;
               s11 = pinMode env ECG_OUTPUT_PIN INPUT s10;
               s12 = pinMode env ECG_LO_PLUS_PIN INPUT s11;
               s13 = pinMode env ECG_LO_MINUS_PIN INPUT s12
           in Some (serialLog env Monitor_Ready s13)))"

text \<open>One iteration of \<^verbatim>\<open>loop()\<close>, which the Arduino runtime calls forever.\<close>

definition loop_serial :: "env \<Rightarrow> sys \<Rightarrow> sys" where
  "loop_serial env s =
     (let (currentTime, s1) = millis env s;
          s2 = (if currentTime - lastReadTime s1 \<ge> READ_INTERVAL
                then (let sa = readAllSensors env s1;
                          sb = sendVitalData env sa;
                          sc = sb\<lparr> lastReadTime := currentTime \<rparr>;
                          sd = digitalWrite env LED_PIN HIGH sc;
                          se = delay env 50 sd
                      in digitalWrite env LED_PIN LOW se)
                else s1)
      in if poxConnected s2 then poxUpdate env s2 else s2)"

section \<open>The network variant\<close>

text \<open>
  The \<^verbatim>\<open>while\<close> loop of \<^verbatim>\<open>connectToWiFi\<close>: the status is queried before the
  attempt counter is compared (\<^verbatim>\<open>&&\<close> evaluates left to right).
\<close>

function connectToWiFi_while :: "env \<Rightarrow> nat \<Rightarrow> sys \<Rightarrow> sys" where
  "connectToWiFi_while env attempts s =
     (case wifiStatus env s of
        (linkUp, s1) \<Rightarrow>
          if \<not> linkUp \<and> attempts < 20
          then (let s2 = delay env 500 s1;
                    s3 = serialLog env Dot s2;
                    (led, s4) = digitalRead env LED_PIN s3;
                    s5 = digitalWrite env LED_PIN (\<not> led) s4
                in connectToWiFi_while env (attempts + 1) s5)
          else s1)"
  by pat_completeness auto
termination
  by (relation "measure (\<lambda>(env, attempts, s). 20 - attempts)") auto

definition connectToWiFi :: "env \<Rightarrow> sys \<Rightarrow> sys" where
  "connectToWiFi env s =
     (let s1 = serialLog env Connecting_To_WiFi s;
          s2 = wifiBegin env s1;
          s3 = connectToWiFi_while env 0 s2;
          (linkUp, s4) = wifiStatus env s3
      in if linkUp
         then (let s5 = s4\<lparr> wifiConnected := True \<rparr>;
                   s6 = digitalWrite env LED_PIN HIGH s5
               in serialLog env WiFi_Connected s6)
         else (let s5 = s4\<lparr> wifiConnected := False \<rparr>;
                   s6 = digitalWrite env LED_PIN LOW s5
               in serialLog env WiFi_Connection_Failed s6))"

definition sendVitalDataToAPI :: "env \<Rightarrow> sys \<Rightarrow> sys" where
  "sendVitalDataToAPI env s =
     (if \<not> wifiConnected s then s
      else
        (let doc = \<lparr> doc_hr = heartRate (vitals s),
                      doc_bp_sys = bpSystolic (vitals s),
                      doc_bp_dia = bpDiastolic (vitals s),
                      doc_temp = round_tenths env (temperature (vitals s)),
                      doc_spo2 = oxygenSaturation (vitals s),
                      doc_rr = respiratoryRate (vitals s),
                      doc_ecg = ecgValue (vitals s),
                      doc_ecg_leads = ecgLeadsConnected (vitals s),
                      doc_timestamp = timestamp (vitals s),
                      doc_device_id = Some ''ESP32_001'',
                      doc_sensors_mlx90614 = mlxConnected s,
                      doc_sensors_max30100 = poxConnected s \<rparr>;
             s1 = httpBegin env s;
             s2 = httpAddHeader env s1;
             (httpResponseCode, s3) = httpPOST env doc s2;
             s4 = (if httpResponseCode > 0
                   then (let sa = serialLog env (Data_Sent httpResponseCode) s3;
                             sb = digitalWrite env LED_PIN LOW sa;
                             sc = delay env 50 sb
                         in digitalWrite env LED_PIN HIGH sc)
                   else serialLog env (Error_Sending httpResponseCode) s3);
             s5 = httpEnd env s4
         in serialLog env (Vitals_Line (heartRate (vitals s5)) (bpSystolic (vitals s5))
                             (bpDiastolic (vitals s5)) (temperature (vitals s5))
                             (oxygenSaturation (vitals s5)) (respiratoryRate (vitals s5))) s5))"

definition setup_wifi :: "env \<Rightarrow> sys \<Rightarrow> sys" where
  "setup_wifi env s =
     (let s1 = serialBegin env 115200 s;
          s2 = delay env 1000 s1;
          s3 = serialLog env Banner s2;
          s4 = pinMode env LED_PIN OUTPUT s3;
          s5 = digitalWrite env LED_PIN LOW s4;
          s6 = connectToWiFi env s5;
          s7 = wireBegin env s6;
          (m, s8) = mlxBegin env s7;
          s9 = (if m then serialLog env Mlx_Connected (s8\<lparr> mlxConnected := True \<rparr>)
                else serialLog env Mlx_Not_Found s8);
          (p, s10) = poxBegin env s9;
          s11 = (if p then serialLog env Pox_Connected (s10\<lparr> poxConnected := True \<rparr>)
                 else serialLog env Pox_Not_Found s10);
          s12 = pinMode env BP_SENSOR_PIN INPUT s11;
          s13 = pinMode env RESP_SENSOR_PIN INPUT s12;
          s14 = pinMode env ECG_OUTPUT_PIN INPUT s13;
          s15 = pinMode env ECG_LO_PLUS_PIN INPUT s14;
          s16 = pinMode env ECG_LO_MINUS_PIN INPUT s15
      in serialLog env Monitor_Ready s16)"

definition loop_wifi :: "env \<Rightarrow> sys \<Rightarrow> sys" where
  "loop_wifi env s =
     (let (currentTime, s1) = millis env s;
          (linkUp, s2) = wifiStatus env s1;
          s3 = (if \<not> linkUp
                then (let sa = s2\<lparr> wifiConnected := False \<rparr>;
                          sb = serialLog env WiFi_Disconnected_Reconnecting sa
                      in connectToWiFi env sb)
                else s2);
          s4 = (if currentTime - lastReadTime s3 \<ge> READ_INTERVAL
                then (let sa = readAllSensors env s3 in sa\<lparr> lastReadTime := currentTime \<rparr>)
                else s3);
          s5 = (if wifiConnected s4 \<and> currentTime - lastSendTime s4 \<ge> SEND_INTERVAL
                then (let sa = sendVitalDataToAPI env s4 in sa\<lparr> lastSendTime := currentTime \<rparr>)
                else s4);
          s6 = (if poxConnected s5 then poxUpdate env s5 else s5)
      in delay env 10 s6)"

section \<open>Observations of a run\<close>

text \<open>
  What a run did is read off its events: the values the sensors returned, the
  records written to the serial port, the HTTP requests with their response status,
  the messages printed, the levels written to the status light, and the results of
  the two sensor probes of \<^verbatim>\<open>setup\<close>. Each observation keeps the order of the events.
\<close>

definition heart_rate_readings :: "event list \<Rightarrow> float32 list" where
  "heart_rate_readings tr = [hr. PoxGetHeartRate hr \<leftarrow> tr]"

definition spo2_readings :: "event list \<Rightarrow> 8 word list" where
  "spo2_readings tr = [sp. PoxGetSpO2 sp \<leftarrow> tr]"

definition digital_readings :: "nat \<Rightarrow> event list \<Rightarrow> bool list" where
  "digital_readings pin tr = [v. DigitalRead p v \<leftarrow> tr, p = pin]"

definition analog_readings :: "nat \<Rightarrow> event list \<Rightarrow> 12 word list" where
  "analog_readings pin tr = [v. AnalogRead p v \<leftarrow> tr, p = pin]"

definition serial_docs :: "event list \<Rightarrow> telemetry list" where
  "serial_docs tr = [d. SerialJson d \<leftarrow> tr]"

definition http_posts :: "event list \<Rightarrow> (telemetry \<times> int) list" where
  "http_posts tr = [(d, c). HttpPost d c \<leftarrow> tr]"

definition log_lines :: "event list \<Rightarrow> log_msg list" where
  "log_lines tr = [m. SerialLog m \<leftarrow> tr]"

definition led_writes :: "event list \<Rightarrow> bool list" where
  "led_writes tr = [v. DigitalWrite p v \<leftarrow> tr, p = LED_PIN]"

definition mlx_probes :: "event list \<Rightarrow> bool list" where
  "mlx_probes tr = [v. MlxBegin v \<leftarrow> tr]"

definition pox_probes :: "event list \<Rightarrow> bool list" where
  "pox_probes tr = [v. PoxBegin v \<leftarrow> tr]"

section \<open>Slices of the source functions\<close>

text \<open>
  The definitions of this section are not functions of the sketches. Each of them is
  a consecutive part of the body of one, named so that it can be reasoned about on
  its own; \<open>readAllSensors_stages\<close>, \<open>connectToWiFi_while_unfold\<close>,
  \<open>loop_serial_stages\<close> and \<open>loop_wifi_stages\<close> below prove that the functions
  above are the compositions of their parts.

  The parts of \<^verbatim>\<open>readAllSensors\<close>, in the order of the source: the temperature,
  the pulse oximeter with its two range checks, the blood pressure with the derived
  diastolic value, the respiration rate, and the time stamp (\<^verbatim>\<open>readECGData\<close>, which
  comes before the time stamp, is a function of the source).
\<close>

definition stage_temperature :: "env \<Rightarrow> sys \<Rightarrow> sys" where
  "stage_temperature env s =
     (if mlxConnected s
      then (let (t, s') = mlxReadObjectTempC env s
            in s'\<lparr> vitals := (vitals s')\<lparr> temperature := t \<rparr> \<rparr>)
      else s\<lparr> vitals := (vitals s)\<lparr> temperature := 0 \<rparr> \<rparr>)"

definition stage_pulse_ox :: "env \<Rightarrow> sys \<Rightarrow> sys" where
  "stage_pulse_ox env s1 =
     (if poxConnected s1
      then (let (h, sa) = poxGetHeartRate env s1;
                sb = sa\<lparr> vitals := (vitals sa)\<lparr> heartRate := float_to_int env h \<rparr> \<rparr>;
                (sp, sc) = poxGetSpO2 env sb;
                sd = sc\<lparr> vitals := (vitals sc)\<lparr> oxygenSaturation := uint sp \<rparr> \<rparr>;
                se = (if heartRate (vitals sd) < 30 \<or> heartRate (vitals sd) > 200
                      then sd\<lparr> vitals := (vitals sd)\<lparr> heartRate := 0 \<rparr> \<rparr>
                      else sd)
            in if oxygenSaturation (vitals se) < 70 \<or> oxygenSaturation (vitals se) > 100
               then se\<lparr> vitals := (vitals se)\<lparr> oxygenSaturation := 0 \<rparr> \<rparr>
               else se)
      else s1\<lparr> vitals := (vitals s1)\<lparr> heartRate := 0, oxygenSaturation := 0 \<rparr> \<rparr>)"

definition stage_pressure :: "env \<Rightarrow> sys \<Rightarrow> sys" where
  "stage_pressure env s2 =
     (let (bp, s3) = readBloodPressure env s2;
          s4 = s3\<lparr> vitals := (vitals s3)\<lparr> bpSystolic := bp \<rparr> \<rparr>
      in s4\<lparr> vitals := (vitals s4)\<lparr> bpDiastolic := bpSystolic (vitals s4) - 40 \<rparr> \<rparr>)"

definition stage_respiration :: "env \<Rightarrow> sys \<Rightarrow> sys" where
  "stage_respiration env s5 =
     (let (rr, s6) = readRespiratoryRate env s5
      in s6\<lparr> vitals := (vitals s6)\<lparr> respiratoryRate := rr \<rparr> \<rparr>)"

definition stage_timestamp :: "env \<Rightarrow> sys \<Rightarrow> sys" where
  "stage_timestamp env s8 =
     (let (t, s9) = millis env s8 in s9\<lparr> vitals := (vitals s9)\<lparr> timestamp := t \<rparr> \<rparr>)"

text \<open>The body of the \<^verbatim>\<open>while\<close> loop of \<^verbatim>\<open>connectToWiFi\<close>.\<close>

definition attempt_body :: "env \<Rightarrow> sys \<Rightarrow> sys" where
  "attempt_body env s1 =
     (let s2 = delay env 500 s1;
          s3 = serialLog env Dot s2;
          (led, s4) = digitalRead env LED_PIN s3
      in digitalWrite env LED_PIN (\<not> led) s4)"

text \<open>
  The parts of the two \<^verbatim>\<open>loop\<close> functions: the update of the pulse oximeter (both
  variants), the sampling block of the serial variant, and the link check, the
  sampling block and the publishing block of the network variant.
\<close>

definition stage_pox_update :: "env \<Rightarrow> sys \<Rightarrow> sys" where
  "stage_pox_update env s = (if poxConnected s then poxUpdate env s else s)"

definition stage_serial_sample :: "env \<Rightarrow> 32 word \<Rightarrow> sys \<Rightarrow> sys" where
  "stage_serial_sample env currentTime s1 =
     (if currentTime - lastReadTime s1 \<ge> READ_INTERVAL
      then (let sa = readAllSensors env s1;
                sb = sendVitalData env sa;
                sc = sb\<lparr> lastReadTime := currentTime \<rparr>;
                sd = digitalWrite env LED_PIN HIGH sc;
                se = delay env 50 sd
            in digitalWrite env LED_PIN LOW se)
      else s1)"

definition stage_link :: "env \<Rightarrow> bool \<Rightarrow> sys \<Rightarrow> sys" where
  "stage_link env linkUp s2 =
     (if \<not> linkUp
      then (let sa = s2\<lparr> wifiConnected := False \<rparr>;
                sb = serialLog env WiFi_Disconnected_Reconnecting sa
            in connectToWiFi env sb)
      else s2)"

definition stage_read :: "env \<Rightarrow> 32 word \<Rightarrow> sys \<Rightarrow> sys" where
  "stage_read env currentTime s3 =
     (if currentTime - lastReadTime s3 \<ge> READ_INTERVAL
      then (let sa = readAllSensors env s3 in sa\<lparr> lastReadTime := currentTime \<rparr>)
      else s3)"

definition stage_send :: "env \<Rightarrow> 32 word \<Rightarrow> sys \<Rightarrow> sys" where
  "stage_send env currentTime s4 =
     (if wifiConnected s4 \<and> currentTime - lastSendTime s4 \<ge> SEND_INTERVAL
      then (let sa = sendVitalDataToAPI env s4 in sa\<lparr> lastSendTime := currentTime \<rparr>)
      else s4)"

text \<open>
  The JSON document that \<^verbatim>\<open>sendVitalData\<close> builds in a given state, the one that
  \<^verbatim>\<open>sendVitalDataToAPI\<close> builds, and the status that the POST of the latter returns
  (the POST is the third operation of \<^verbatim>\<open>sendVitalDataToAPI\<close>).
\<close>

definition serial_doc :: "env \<Rightarrow> sys \<Rightarrow> telemetry" where
  "serial_doc env s =
     \<lparr> doc_hr = heartRate (vitals s),
       doc_bp_sys = bpSystolic (vitals s),
       doc_bp_dia = bpDiastolic (vitals s),
       doc_temp = round_tenths env (temperature (vitals s)),
       doc_spo2 = oxygenSaturation (vitals s),
       doc_rr = respiratoryRate (vitals s),
       doc_ecg = ecgValue (vitals s),
       doc_ecg_leads = ecgLeadsConnected (vitals s),
       doc_timestamp = timestamp (vitals s),
       doc_device_id = None,
       doc_sensors_mlx90614 = mlxConnected s,
       doc_sensors_max30100 = poxConnected s \<rparr>"

definition api_doc :: "env \<Rightarrow> sys \<Rightarrow> telemetry" where
  "api_doc env s = (serial_doc env s)\<lparr> doc_device_id := Some ''ESP32_001'' \<rparr>"

definition api_response :: "env \<Rightarrow> sys \<Rightarrow> int" where
  "api_response env s = http_POST env (Suc (Suc (length (trace s)))) (api_doc env s)"

section \<open>Concrete environments and states\<close>

text \<open>
  \<open>bench_env\<close>: no operation takes time beyond the requested delays, the serial port
  is ready, neither sensor answers its probe, the access point is out of reach, the
  ECG leads are connected, the HTTP client returns 0, and the pulse oximeter library
  reports a heart rate of 250.0 (the bit pattern 1132068864) and a saturation of 98.
  \<open>resting_env\<close> and \<open>edge_env\<close> report a heart rate of 72.5 (1116798976) and of
  200.5 (1128824832) instead. The other environments
  differ from it in one respect each: a lead is off, the ADC reads 0, the link is up
  and the server answers 200, every operation takes 400 ms.

  \<open>wrap_state\<close> is a state 500 ms after the 32-bit millisecond counter has wrapped
  around, whose last sample was taken 1000 ms earlier. \<open>link_down_start\<close> and
  \<open>serial_start\<close> are the states in which \<^verbatim>\<open>setup\<close> of the network variant and of
  the serial variant return.
\<close>

definition bench_env :: env where
  "bench_env =
     \<lparr> latency = (\<lambda>k. 0), serial_ready = (\<lambda>k. True),
       mlx_begin = (\<lambda>k. False), pox_begin = (\<lambda>k. False),
       mlx_readObjectTempC = (\<lambda>k. 0),
       pox_getHeartRate = (\<lambda>k. 1132068864), pox_getSpO2 = (\<lambda>k. 98),
       int_of_unrepresentable = (\<lambda>w. 0),
       digital_in = (\<lambda>pin k. False),
       analog_in = (\<lambda>pin k. if pin = BP_SENSOR_PIN then 4095 else 1234),
       wifi_status_connected = (\<lambda>k. False),
       http_POST = (\<lambda>k doc. 0),
       round_tenths = (\<lambda>t. 0) \<rparr>"

definition resting_env :: env where
  "resting_env = bench_env\<lparr> pox_getHeartRate := (\<lambda>k. 1116798976) \<rparr>"

definition edge_env :: env where
  "edge_env = bench_env\<lparr> pox_getHeartRate := (\<lambda>k. 1128824832) \<rparr>"

definition leads_off_env :: env where
  "leads_off_env = bench_env\<lparr> digital_in := (\<lambda>pin k. pin = ECG_LO_PLUS_PIN) \<rparr>"



definition slow_env :: env where
  "slow_env = bench_env\<lparr> latency := (\<lambda>k. 400) \<rparr>"

definition pox_state :: sys where
  "pox_state = boot\<lparr> poxConnected := True \<rparr>"


definition due_state :: sys where
  "due_state = boot\<lparr> now := 5000 \<rparr>"

definition wrap_state :: sys where
  "wrap_state = boot\<lparr> vitals := (vitals boot)\<lparr> timestamp := 4294966796 \<rparr>,
                      lastReadTime := 4294966796, now := 4294967796 \<rparr>"

definition link_down_start :: sys where
  "link_down_start = setup_wifi bench_env boot"

definition serial_start :: sys where
  "serial_start = the (setup_serial slow_env boot)"

section \<open>Observations: how they follow the events\<close>

lemma heart_rate_readings_simps [simp]:
  "heart_rate_readings [] = []"
  "heart_rate_readings (xs @ ys) = heart_rate_readings xs @ heart_rate_readings ys"
  "heart_rate_readings (e # xs) =
     (case e of PoxGetHeartRate hr \<Rightarrow> [hr] | _ \<Rightarrow> []) @ heart_rate_readings xs"
  by (simp_all add: heart_rate_readings_def)

lemma spo2_readings_simps [simp]:
  "spo2_readings [] = []"
  "spo2_readings (xs @ ys) = spo2_readings xs @ spo2_readings ys"
  "spo2_readings (e # xs) = (case e of PoxGetSpO2 sp \<Rightarrow> [sp] | _ \<Rightarrow> []) @ spo2_readings xs"
  by (simp_all add: spo2_readings_def)

lemma digital_readings_simps [simp]:
  "digital_readings pin [] = []"
  "digital_readings pin (xs @ ys) = digital_readings pin xs @ digital_readings pin ys"
  "digital_readings pin (e # xs) =
     (case e of DigitalRead p v \<Rightarrow> if p = pin then [v] else [] | _ \<Rightarrow> [])
     @ digital_readings pin xs"
  by (simp_all add: digital_readings_def)

lemma analog_readings_simps [simp]:
  "analog_readings pin [] = []"
  "analog_readings pin (xs @ ys) = analog_readings pin xs @ analog_readings pin ys"
  "analog_readings pin (e # xs) =
     (case e of AnalogRead p v \<Rightarrow> if p = pin then [v] else [] | _ \<Rightarrow> [])
     @ analog_readings pin xs"
  by (simp_all add: analog_readings_def)

lemma serial_docs_simps [simp]:
  "serial_docs [] = []"
  "serial_docs (xs @ ys) = serial_docs xs @ serial_docs ys"
  "serial_docs (e # xs) = (case e of SerialJson d \<Rightarrow> [d] | _ \<Rightarrow> []) @ serial_docs xs"
  by (simp_all add: serial_docs_def)

lemma http_posts_simps [simp]:
  "http_posts [] = []"
  "http_posts (xs @ ys) = http_posts xs @ http_posts ys"
  "http_posts (e # xs) = (case e of HttpPost d c \<Rightarrow> [(d, c)] | _ \<Rightarrow> []) @ http_posts xs"
  by (simp_all add: http_posts_def)

lemma log_lines_simps [simp]:
  "log_lines [] = []"
  "log_lines (xs @ ys) = log_lines xs @ log_lines ys"
  "log_lines (e # xs) = (case e of SerialLog m \<Rightarrow> [m] | _ \<Rightarrow> []) @ log_lines xs"
  by (simp_all add: log_lines_def)

lemma led_writes_simps [simp]:
  "led_writes [] = []"
  "led_writes (xs @ ys) = led_writes xs @ led_writes ys"
  "led_writes (e # xs) =
     (case e of DigitalWrite p v \<Rightarrow> if p = LED_PIN then [v] else [] | _ \<Rightarrow> []) @ led_writes xs"
  by (simp_all add: led_writes_def)

lemma mlx_probes_simps [simp]:
  "mlx_probes [] = []"
  "mlx_probes (xs @ ys) = mlx_probes xs @ mlx_probes ys"
  "mlx_probes (e # xs) = (case e of MlxBegin v \<Rightarrow> [v] | _ \<Rightarrow> []) @ mlx_probes xs"
  by (simp_all add: mlx_probes_def)

lemma pox_probes_simps [simp]:
  "pox_probes [] = []"
  "pox_probes (xs @ ys) = pox_probes xs @ pox_probes ys"
  "pox_probes (e # xs) = (case e of PoxBegin v \<Rightarrow> [v] | _ \<Rightarrow> []) @ pox_probes xs"
  by (simp_all add: pox_probes_def)

section \<open>Conversion of a float to an integer\<close>

lemmas float_defs = float32_exponent_def float32_fraction_def float32_negative_def
  float32_finite_def float32_value_def

lemma float_to_int_filter:
  assumes "float32_finite w" and "- (2 ^ 31) \<le> c_trunc (float32_value w)"
    and "c_trunc (float32_value w) < 2 ^ 31"
  shows "(if float_to_int env w < 30 \<or> float_to_int env w > 200 then 0 else float_to_int env w) =
         (if 30 \<le> float32_value w \<and> float32_value w < 201 then \<lfloor>float32_value w\<rfloor>
          else 0)"
  using assms
  by (auto simp add: float_to_int_def c_trunc_def le_floor_iff floor_less_iff not_le not_less
      split: if_splits)

lemma float32_value_examples:
  "float32_finite 1116798976" "float32_value 1116798976 = 145 / 2"
  "float32_finite 1128824832" "float32_value 1128824832 = 401 / 2"
  "float32_finite 1132068864" "float32_value 1132068864 = 250"
  by (simp_all add: float_defs)

lemma float_to_int_examples:
  "float_to_int env 1116798976 = 72" "float_to_int env 1128824832 = 200"
  "float_to_int env 1132068864 = 250"
  by (simp_all add: float_to_int_def c_trunc_def float32_value_examples floor_eq_iff)

section \<open>Hardware operations: what they change\<close>

lemma emit_fields [simp]:
  "vitals (emit env e d s) = vitals s"
  "lastReadTime (emit env e d s) = lastReadTime s"
  "lastSendTime (emit env e d s) = lastSendTime s"
  "mlxConnected (emit env e d s) = mlxConnected s"
  "poxConnected (emit env e d s) = poxConnected s"
  "wifiConnected (emit env e d s) = wifiConnected s"
  "now (emit env e d s) = now s + d + latency env (length (trace s))"
  "trace (emit env e d s) = trace s @ [e]"
  by (simp_all add: emit_def)

lemmas op_defs = millis_def delay_def pinMode_def digitalWrite_def digitalRead_def analogRead_def
  serialLog_def mlxBegin_def poxBegin_def mlxReadObjectTempC_def poxGetHeartRate_def
  poxGetSpO2_def poxUpdate_def wifiStatus_def httpPOST_def serialBegin_def serialReady_def
  serialJson_def wireBegin_def wifiBegin_def httpBegin_def httpAddHeader_def httpEnd_def

lemma if_vitals_update:
  "(if c then s\<lparr> vitals := v \<rparr> else s) = s\<lparr> vitals := (if c then v else vitals s) \<rparr>"
  by simp

section \<open>The stages of \<open>readAllSensors\<close>\<close>

lemmas stage_defs = stage_temperature_def stage_pulse_ox_def stage_pressure_def
  stage_respiration_def stage_timestamp_def

lemma readAllSensors_stages:
  "readAllSensors env s =
     stage_timestamp env (readECGData env (stage_respiration env (stage_pressure env
       (stage_pulse_ox env (stage_temperature env s)))))"
  by (simp only: readAllSensors_def stage_defs Let_def case_prod_beta)

subsection \<open>Temperature\<close>

lemma stage_temperature_frame [simp]:
  "lastReadTime (stage_temperature env s) = lastReadTime s"
  "lastSendTime (stage_temperature env s) = lastSendTime s"
  "mlxConnected (stage_temperature env s) = mlxConnected s"
  "poxConnected (stage_temperature env s) = poxConnected s"
  "wifiConnected (stage_temperature env s) = wifiConnected s"
  by (simp_all add: stage_temperature_def op_defs Let_def)

lemma stage_temperature_trace:
  "trace (stage_temperature env s) =
     trace s @ (if mlxConnected s
                then [MlxReadObjectTempC (mlx_readObjectTempC env (length (trace s)))] else [])"
  by (simp add: stage_temperature_def op_defs Let_def)

lemma stage_temperature_now:
  "now (stage_temperature env s) =
     now s + (if mlxConnected s then latency env (length (trace s)) else 0)"
  by (simp add: stage_temperature_def op_defs Let_def)

lemma stage_temperature_vitals:
  "vitals (stage_temperature env s) =
     (vitals s)\<lparr> temperature :=
        (if mlxConnected s then mlx_readObjectTempC env (length (trace s)) else 0) \<rparr>"
  by (simp add: stage_temperature_def op_defs Let_def)

subsection \<open>Pulse oximetry\<close>

lemma stage_pulse_ox_frame [simp]:
  "lastReadTime (stage_pulse_ox env s) = lastReadTime s"
  "lastSendTime (stage_pulse_ox env s) = lastSendTime s"
  "mlxConnected (stage_pulse_ox env s) = mlxConnected s"
  "poxConnected (stage_pulse_ox env s) = poxConnected s"
  "wifiConnected (stage_pulse_ox env s) = wifiConnected s"
  by (simp_all add: stage_pulse_ox_def op_defs Let_def if_vitals_update)

lemma stage_pulse_ox_trace:
  "trace (stage_pulse_ox env s) =
     trace s @ (if poxConnected s
                then [PoxGetHeartRate (pox_getHeartRate env (length (trace s))),
                      PoxGetSpO2 (pox_getSpO2 env (Suc (length (trace s))))]
                else [])"
  by (simp add: stage_pulse_ox_def op_defs Let_def if_vitals_update)

lemma stage_pulse_ox_now:
  "now (stage_pulse_ox env s) =
     now s + (if poxConnected s
              then latency env (length (trace s)) + latency env (Suc (length (trace s)))
              else 0)"
  by (simp add: stage_pulse_ox_def op_defs Let_def if_vitals_update)

lemma stage_pulse_ox_vitals:
  "vitals (stage_pulse_ox env s) =
     (vitals s)\<lparr> heartRate :=
        (if poxConnected s
         then (let hr = float_to_int env (pox_getHeartRate env (length (trace s)))
               in if hr < 30 \<or> hr > 200 then 0 else hr)
         else 0),
      oxygenSaturation :=
        (if poxConnected s
         then (let sp = uint (pox_getSpO2 env (Suc (length (trace s))))
               in if sp < 70 \<or> sp > 100 then 0 else sp)
         else 0) \<rparr>"
  by (simp add: stage_pulse_ox_def op_defs Let_def if_vitals_update)

subsection \<open>Blood pressure and respiration\<close>

lemma map_long_pressure:
  "map_long (uint (w :: 12 word)) 0 4095 80 180 = 80 + uint w * 100 div 4095"
  by (simp add: map_long_def c_div_def)

lemma map_long_respiration:
  "map_long (uint (w :: 12 word)) 0 4095 8 25 = 8 + uint w * 17 div 4095"
  by (simp add: map_long_def c_div_def)

lemma stage_pressure_frame [simp]:
  "lastReadTime (stage_pressure env s) = lastReadTime s"
  "lastSendTime (stage_pressure env s) = lastSendTime s"
  "mlxConnected (stage_pressure env s) = mlxConnected s"
  "poxConnected (stage_pressure env s) = poxConnected s"
  "wifiConnected (stage_pressure env s) = wifiConnected s"
  by (simp_all add: stage_pressure_def readBloodPressure_def op_defs Let_def)

lemma stage_pressure_trace:
  "trace (stage_pressure env s) =
     trace s @ [AnalogRead BP_SENSOR_PIN (analog_in env BP_SENSOR_PIN (length (trace s)))]"
  by (simp add: stage_pressure_def readBloodPressure_def op_defs Let_def)

lemma stage_pressure_now:
  "now (stage_pressure env s) = now s + latency env (length (trace s))"
  by (simp add: stage_pressure_def readBloodPressure_def op_defs Let_def)

lemma stage_pressure_vitals:
  "vitals (stage_pressure env s) =
     (vitals s)\<lparr> bpSystolic :=
                   80 + uint (analog_in env BP_SENSOR_PIN (length (trace s))) * 100 div 4095,
                 bpDiastolic :=
                   80 + uint (analog_in env BP_SENSOR_PIN (length (trace s))) * 100 div 4095 - 40 \<rparr>"
  by (simp add: stage_pressure_def readBloodPressure_def op_defs Let_def map_long_pressure)

lemma stage_respiration_frame [simp]:
  "lastReadTime (stage_respiration env s) = lastReadTime s"
  "lastSendTime (stage_respiration env s) = lastSendTime s"
  "mlxConnected (stage_respiration env s) = mlxConnected s"
  "poxConnected (stage_respiration env s) = poxConnected s"
  "wifiConnected (stage_respiration env s) = wifiConnected s"
  by (simp_all add: stage_respiration_def readRespiratoryRate_def op_defs Let_def)

lemma stage_respiration_trace:
  "trace (stage_respiration env s) =
     trace s @ [AnalogRead RESP_SENSOR_PIN (analog_in env RESP_SENSOR_PIN (length (trace s)))]"
  by (simp add: stage_respiration_def readRespiratoryRate_def op_defs Let_def)

lemma stage_respiration_now:
  "now (stage_respiration env s) = now s + latency env (length (trace s))"
  by (simp add: stage_respiration_def readRespiratoryRate_def op_defs Let_def)

lemma stage_respiration_vitals:
  "vitals (stage_respiration env s) =
     (vitals s)\<lparr> respiratoryRate :=
                   8 + uint (analog_in env RESP_SENSOR_PIN (length (trace s))) * 17 div 4095 \<rparr>"
  by (simp add: stage_respiration_def readRespiratoryRate_def op_defs Let_def
      map_long_respiration)

subsection \<open>ECG\<close>

lemma readECGData_frame [simp]:
  "lastReadTime (readECGData env s) = lastReadTime s"
  "lastSendTime (readECGData env s) = lastSendTime s"
  "mlxConnected (readECGData env s) = mlxConnected s"
  "poxConnected (readECGData env s) = poxConnected s"
  "wifiConnected (readECGData env s) = wifiConnected s"
  by (simp_all add: readECGData_def op_defs Let_def)

lemma readECGData_trace:
  "trace (readECGData env s) =
     trace s @
     [DigitalRead ECG_LO_PLUS_PIN (digital_in env ECG_LO_PLUS_PIN (length (trace s))),
      DigitalRead ECG_LO_MINUS_PIN (digital_in env ECG_LO_MINUS_PIN (Suc (length (trace s))))] @
     (if digital_in env ECG_LO_PLUS_PIN (length (trace s)) \<or>
         digital_in env ECG_LO_MINUS_PIN (Suc (length (trace s)))
      then []
      else [AnalogRead ECG_OUTPUT_PIN
              (analog_in env ECG_OUTPUT_PIN (Suc (Suc (length (trace s)))))])"
  by (simp add: readECGData_def op_defs Let_def)

lemma readECGData_now:
  "now (readECGData env s) =
     now s + latency env (length (trace s)) + latency env (Suc (length (trace s))) +
     (if digital_in env ECG_LO_PLUS_PIN (length (trace s)) \<or>
         digital_in env ECG_LO_MINUS_PIN (Suc (length (trace s)))
      then 0 else latency env (Suc (Suc (length (trace s)))))"
  by (simp add: readECGData_def op_defs Let_def)

lemma readECGData_vitals:
  "vitals (readECGData env s) =
     (if digital_in env ECG_LO_PLUS_PIN (length (trace s)) \<or>
         digital_in env ECG_LO_MINUS_PIN (Suc (length (trace s)))
      then (vitals s)\<lparr> ecgLeadsConnected := False, ecgValue := 0 \<rparr>
      else (vitals s)\<lparr> ecgLeadsConnected := True,
                       ecgValue := uint (analog_in env ECG_OUTPUT_PIN
                                           (Suc (Suc (length (trace s))))) \<rparr>)"
  by (simp add: readECGData_def op_defs Let_def)

subsection \<open>Time stamp\<close>

lemma stage_timestamp_frame [simp]:
  "lastReadTime (stage_timestamp env s) = lastReadTime s"
  "lastSendTime (stage_timestamp env s) = lastSendTime s"
  "mlxConnected (stage_timestamp env s) = mlxConnected s"
  "poxConnected (stage_timestamp env s) = poxConnected s"
  "wifiConnected (stage_timestamp env s) = wifiConnected s"
  by (simp_all add: stage_timestamp_def op_defs Let_def)

lemma stage_timestamp_trace:
  "trace (stage_timestamp env s) = trace s @ [Millis (word_of_nat (now s))]"
  by (simp add: stage_timestamp_def op_defs Let_def)

lemma stage_timestamp_now:
  "now (stage_timestamp env s) = now s + latency env (length (trace s))"
  by (simp add: stage_timestamp_def op_defs Let_def)

lemma stage_timestamp_vitals:
  "vitals (stage_timestamp env s) = (vitals s)\<lparr> timestamp := word_of_nat (now s) \<rparr>"
  by (simp add: stage_timestamp_def op_defs Let_def)

lemmas stage_trace = stage_temperature_trace stage_pulse_ox_trace stage_pressure_trace
  stage_respiration_trace readECGData_trace stage_timestamp_trace

lemmas stage_vitals = stage_temperature_vitals stage_pulse_ox_vitals stage_pressure_vitals
  stage_respiration_vitals readECGData_vitals stage_timestamp_vitals

lemmas stage_now = stage_temperature_now stage_pulse_ox_now stage_pressure_now
  stage_respiration_now readECGData_now stage_timestamp_now

section \<open>What \<open>readAllSensors\<close> changes\<close>

lemma readAllSensors_frame [simp]:
  "lastReadTime (readAllSensors env s) = lastReadTime s"
  "lastSendTime (readAllSensors env s) = lastSendTime s"
  "mlxConnected (readAllSensors env s) = mlxConnected s"
  "poxConnected (readAllSensors env s) = poxConnected s"
  "wifiConnected (readAllSensors env s) = wifiConnected s"
  by (simp_all add: readAllSensors_stages)

lemma readAllSensors_now_mono: "now s \<le> now (readAllSensors env s)"
  by (simp add: readAllSensors_stages stage_now)


lemma readAllSensors_docs [simp]:
  "serial_docs (trace (readAllSensors env s)) = serial_docs (trace s)"
  "http_posts (trace (readAllSensors env s)) = http_posts (trace s)"
  "log_lines (trace (readAllSensors env s)) = log_lines (trace s)"
  "led_writes (trace (readAllSensors env s)) = led_writes (trace s)"
  by (simp_all add: readAllSensors_stages stage_trace)

lemma readAllSensors_pressure_reads [simp]:
  "length (analog_readings BP_SENSOR_PIN (trace (readAllSensors env s))) =
     Suc (length (analog_readings BP_SENSOR_PIN (trace s)))"
  by (simp add: readAllSensors_stages stage_trace)


lemma readAllSensors_absent:
  "\<not> mlxConnected s \<Longrightarrow> temperature (vitals (readAllSensors env s)) = 0"
  "\<not> poxConnected s \<Longrightarrow> heartRate (vitals (readAllSensors env s)) = 0"
  "\<not> poxConnected s \<Longrightarrow> oxygenSaturation (vitals (readAllSensors env s)) = 0"
  by (simp_all add: readAllSensors_stages stage_vitals)

section \<open>Publishing\<close>

lemma sendVitalData_eq: "sendVitalData env s = emit env (SerialJson (serial_doc env s)) 0 s"
  by (simp add: sendVitalData_def serial_doc_def serialJson_def)

lemma sendVitalDataToAPI_frame [simp]:
  "vitals (sendVitalDataToAPI env s) = vitals s"
  "lastReadTime (sendVitalDataToAPI env s) = lastReadTime s"
  "lastSendTime (sendVitalDataToAPI env s) = lastSendTime s"
  "mlxConnected (sendVitalDataToAPI env s) = mlxConnected s"
  "poxConnected (sendVitalDataToAPI env s) = poxConnected s"
  "wifiConnected (sendVitalDataToAPI env s) = wifiConnected s"
  by (simp_all add: sendVitalDataToAPI_def op_defs Let_def)

lemma sendVitalDataToAPI_trace:
  "trace (sendVitalDataToAPI env s) =
     trace s @
     (if \<not> wifiConnected s then []
      else [HttpBegin, HttpAddHeader, HttpPost (api_doc env s) (api_response env s)] @
           (if api_response env s > 0
            then [SerialLog (Data_Sent (api_response env s)), DigitalWrite LED_PIN LOW,
                  Delay 50, DigitalWrite LED_PIN HIGH]
            else [SerialLog (Error_Sending (api_response env s))]) @
           [HttpEnd,
            SerialLog (Vitals_Line (heartRate (vitals s)) (bpSystolic (vitals s))
              (bpDiastolic (vitals s)) (temperature (vitals s)) (oxygenSaturation (vitals s))
              (respiratoryRate (vitals s)))])"
  by (simp add: sendVitalDataToAPI_def op_defs Let_def api_doc_def serial_doc_def
      api_response_def)

lemma sendVitalDataToAPI_now_mono: "now s \<le> now (sendVitalDataToAPI env s)"
  by (simp add: sendVitalDataToAPI_def op_defs Let_def)


lemma sendVitalDataToAPI_disconnected:
  "\<not> wifiConnected s \<Longrightarrow> sendVitalDataToAPI env s = s"
  by (simp add: sendVitalDataToAPI_def)

section \<open>The reconnect loop\<close>

declare connectToWiFi_while.simps [simp del]

lemma connectToWiFi_while_unfold:
  "connectToWiFi_while env a s =
     (if \<not> fst (wifiStatus env s) \<and> a < 20
      then connectToWiFi_while env (Suc a) (attempt_body env (snd (wifiStatus env s)))
      else snd (wifiStatus env s))"
  by (subst connectToWiFi_while.simps) (simp add: attempt_body_def Let_def case_prod_beta)

lemma connectToWiFi_while_cases:
  assumes "\<And>a s. (\<not> fst (wifiStatus env s) \<and> a < 20 \<Longrightarrow>
                     P (Suc a) (attempt_body env (snd (wifiStatus env s)))) \<Longrightarrow> P a s"
  shows "P a s"
proof (induction n \<equiv> "20 - a" arbitrary: a s)
  case (0 a s)
  show ?case
  proof (rule assms)
    assume "\<not> fst (wifiStatus env s) \<and> a < 20"
    with 0 show "P (Suc a) (attempt_body env (snd (wifiStatus env s)))" by simp
  qed
next
  case (Suc n a s)
  show ?case
  proof (rule assms)
    assume "\<not> fst (wifiStatus env s) \<and> a < 20"
    with Suc.hyps(2) have "n = 20 - Suc a" by simp
    then show "P (Suc a) (attempt_body env (snd (wifiStatus env s)))" by (rule Suc.hyps(1))
  qed
qed

lemma attempt_body_frame [simp]:
  "vitals (attempt_body env s) = vitals s"
  "lastReadTime (attempt_body env s) = lastReadTime s"
  "lastSendTime (attempt_body env s) = lastSendTime s"
  "mlxConnected (attempt_body env s) = mlxConnected s"
  "poxConnected (attempt_body env s) = poxConnected s"
  "wifiConnected (attempt_body env s) = wifiConnected s"
  by (simp_all add: attempt_body_def op_defs Let_def)

lemma attempt_body_trace:
  "trace (attempt_body env s) =
     trace s @ [Delay 500, SerialLog Dot,
                DigitalRead LED_PIN (digital_in env LED_PIN (Suc (Suc (length (trace s))))),
                DigitalWrite LED_PIN (\<not> digital_in env LED_PIN (Suc (Suc (length (trace s)))))]"
  by (simp add: attempt_body_def op_defs Let_def)

lemma attempt_body_now:
  "now (attempt_body env s) =
     now s + 500 + latency env (length (trace s)) + latency env (Suc (length (trace s))) +
     latency env (Suc (Suc (length (trace s)))) + latency env (Suc (Suc (Suc (length (trace s)))))"
  by (simp add: attempt_body_def op_defs Let_def)

lemma wifiStatus_simps [simp]:
  "fst (wifiStatus env s) = wifi_status_connected env (length (trace s))"
  "snd (wifiStatus env s) = emit env (WiFiStatus (wifi_status_connected env (length (trace s)))) 0 s"
  by (simp_all add: wifiStatus_def Let_def)

lemma connectToWiFi_while_frame [simp]:
  "vitals (connectToWiFi_while env a s) = vitals s \<and>
   lastReadTime (connectToWiFi_while env a s) = lastReadTime s \<and>
   lastSendTime (connectToWiFi_while env a s) = lastSendTime s \<and>
   mlxConnected (connectToWiFi_while env a s) = mlxConnected s \<and>
   poxConnected (connectToWiFi_while env a s) = poxConnected s \<and>
   wifiConnected (connectToWiFi_while env a s) = wifiConnected s"
  by (induction a s rule: connectToWiFi_while_cases [where env = env])
     (subst (1 2 3 4 5 6) connectToWiFi_while_unfold, simp)

lemma connectToWiFi_while_quiet [simp]:
  "serial_docs (trace (connectToWiFi_while env a s)) = serial_docs (trace s) \<and>
   http_posts (trace (connectToWiFi_while env a s)) = http_posts (trace s) \<and>
   analog_readings pin (trace (connectToWiFi_while env a s)) = analog_readings pin (trace s) \<and>
   mlx_probes (trace (connectToWiFi_while env a s)) = mlx_probes (trace s) \<and>
   pox_probes (trace (connectToWiFi_while env a s)) = pox_probes (trace s)"
  by (induction a s rule: connectToWiFi_while_cases [where env = env])
     (subst (1 2 3 4 5) connectToWiFi_while_unfold, simp add: attempt_body_trace)

lemma connectToWiFi_while_now_mono: "now s \<le> now (connectToWiFi_while env a s)"
  by (induction a s rule: connectToWiFi_while_cases [where env = env])
     (subst connectToWiFi_while_unfold, auto simp add: attempt_body_now)


lemma connectToWiFi_while_link_down:
  assumes "latency env = (\<lambda>k. 0)" and "wifi_status_connected env = (\<lambda>k. False)"
  shows "now (connectToWiFi_while env a s) = now s + 500 * (20 - a)"
  by (induction a s rule: connectToWiFi_while_cases [where env = env])
     (subst connectToWiFi_while_unfold, auto simp add: attempt_body_now assms)

section \<open>\<open>connectToWiFi\<close>\<close>

lemma connectToWiFi_frame [simp]:
  "vitals (connectToWiFi env s) = vitals s"
  "lastReadTime (connectToWiFi env s) = lastReadTime s"
  "lastSendTime (connectToWiFi env s) = lastSendTime s"
  "mlxConnected (connectToWiFi env s) = mlxConnected s"
  "poxConnected (connectToWiFi env s) = poxConnected s"
  by (simp_all add: connectToWiFi_def op_defs Let_def)

lemma connectToWiFi_quiet [simp]:
  "serial_docs (trace (connectToWiFi env s)) = serial_docs (trace s)"
  "http_posts (trace (connectToWiFi env s)) = http_posts (trace s)"
  "analog_readings pin (trace (connectToWiFi env s)) = analog_readings pin (trace s)"
  "mlx_probes (trace (connectToWiFi env s)) = mlx_probes (trace s)"
  "pox_probes (trace (connectToWiFi env s)) = pox_probes (trace s)"
  by (simp_all add: connectToWiFi_def op_defs Let_def)

lemma connectToWiFi_now_mono: "now s \<le> now (connectToWiFi env s)"
proof -
  have "now s \<le> now (wifiBegin env (serialLog env Connecting_To_WiFi s))"
    by (simp add: op_defs)
  also have "\<dots> \<le> now (connectToWiFi_while env 0 (wifiBegin env (serialLog env Connecting_To_WiFi s)))"
    by (rule connectToWiFi_while_now_mono)
  also have "\<dots> \<le> now (connectToWiFi env s)"
    by (simp add: connectToWiFi_def op_defs Let_def)
  finally show ?thesis .
qed


lemma connectToWiFi_link_down:
  assumes "latency env = (\<lambda>k. 0)" and "wifi_status_connected env = (\<lambda>k. False)"
  shows "now (connectToWiFi env s) = now s + 10000" and "\<not> wifiConnected (connectToWiFi env s)"
  using connectToWiFi_while_link_down [OF assms, of 0 "wifiBegin env (serialLog env Connecting_To_WiFi s)"]
  by (simp_all add: connectToWiFi_def op_defs Let_def assms)

section \<open>The stages of a loop iteration\<close>

lemma loop_serial_stages:
  "loop_serial env s =
     stage_pox_update env (stage_serial_sample env (word_of_nat (now s))
       (emit env (Millis (word_of_nat (now s))) 0 s))"
  by (simp only: loop_serial_def stage_pox_update_def stage_serial_sample_def millis_def
      Let_def prod.case)

lemma loop_wifi_stages:
  "loop_wifi env s =
     delay env 10 (stage_pox_update env (stage_send env (word_of_nat (now s))
       (stage_read env (word_of_nat (now s))
         (stage_link env (fst (wifiStatus env (emit env (Millis (word_of_nat (now s))) 0 s)))
            (snd (wifiStatus env (emit env (Millis (word_of_nat (now s))) 0 s)))))))"
  by (simp only: loop_wifi_def stage_pox_update_def stage_send_def stage_read_def stage_link_def
      millis_def Let_def case_prod_beta fst_conv snd_conv)

subsection \<open>Pulse oximeter update\<close>

lemma stage_pox_update_frame [simp]:
  "vitals (stage_pox_update env s) = vitals s"
  "lastReadTime (stage_pox_update env s) = lastReadTime s"
  "lastSendTime (stage_pox_update env s) = lastSendTime s"
  "mlxConnected (stage_pox_update env s) = mlxConnected s"
  "poxConnected (stage_pox_update env s) = poxConnected s"
  "wifiConnected (stage_pox_update env s) = wifiConnected s"
  by (simp_all add: stage_pox_update_def op_defs)

lemma stage_pox_update_quiet [simp]:
  "serial_docs (trace (stage_pox_update env s)) = serial_docs (trace s)"
  "http_posts (trace (stage_pox_update env s)) = http_posts (trace s)"
  "analog_readings pin (trace (stage_pox_update env s)) = analog_readings pin (trace s)"
  by (simp_all add: stage_pox_update_def op_defs)

lemma stage_pox_update_now_mono: "now s \<le> now (stage_pox_update env s)"
  by (simp add: stage_pox_update_def op_defs)


subsection \<open>Serial variant: sample and publish\<close>

lemma stage_serial_sample_frame [simp]:
  "lastSendTime (stage_serial_sample env t s) = lastSendTime s"
  "mlxConnected (stage_serial_sample env t s) = mlxConnected s"
  "poxConnected (stage_serial_sample env t s) = poxConnected s"
  "wifiConnected (stage_serial_sample env t s) = wifiConnected s"
  by (simp_all add: stage_serial_sample_def sendVitalData_eq op_defs Let_def)

lemma stage_serial_sample_vitals:
  "vitals (stage_serial_sample env t s) =
     (if t - lastReadTime s \<ge> READ_INTERVAL then vitals (readAllSensors env s) else vitals s)"
  by (simp add: stage_serial_sample_def sendVitalData_eq op_defs Let_def)

lemma stage_serial_sample_docs:
  "serial_docs (trace (stage_serial_sample env t s)) =
     serial_docs (trace s) @
     (if t - lastReadTime s \<ge> READ_INTERVAL
      then [serial_doc env (readAllSensors env s)] else [])"
  by (simp add: stage_serial_sample_def sendVitalData_eq op_defs Let_def)

lemma stage_serial_sample_now:
  "now (stage_serial_sample env t s) \<ge>
     (if t - lastReadTime s \<ge> READ_INTERVAL then now (readAllSensors env s) + 50 else now s)"
  by (simp add: stage_serial_sample_def sendVitalData_eq op_defs Let_def)

subsection \<open>Network variant: link check, sampling, publishing\<close>

lemma stage_link_frame [simp]:
  "vitals (stage_link env c s) = vitals s"
  "lastReadTime (stage_link env c s) = lastReadTime s"
  "lastSendTime (stage_link env c s) = lastSendTime s"
  "mlxConnected (stage_link env c s) = mlxConnected s"
  "poxConnected (stage_link env c s) = poxConnected s"
  by (simp_all add: stage_link_def op_defs Let_def)

lemma stage_link_quiet [simp]:
  "serial_docs (trace (stage_link env c s)) = serial_docs (trace s)"
  "http_posts (trace (stage_link env c s)) = http_posts (trace s)"
  "analog_readings pin (trace (stage_link env c s)) = analog_readings pin (trace s)"
  by (simp_all add: stage_link_def op_defs Let_def)

lemma stage_link_now_mono: "now s \<le> now (stage_link env c s)"
proof (cases c)
  case True
  then show ?thesis by (simp add: stage_link_def)
next
  case False
  have "now s \<le> now (serialLog env WiFi_Disconnected_Reconnecting (s\<lparr> wifiConnected := False \<rparr>))"
    by (simp add: op_defs)
  also have "\<dots> \<le> now (stage_link env c s)"
    using False by (simp add: stage_link_def Let_def connectToWiFi_now_mono)
  finally show ?thesis .
qed


lemma stage_link_down:
  assumes "latency env = (\<lambda>k. 0)" and "wifi_status_connected env = (\<lambda>k. False)"
  shows "now (stage_link env False s) = now s + 10000"
    and "\<not> wifiConnected (stage_link env False s)"
  by (simp_all add: stage_link_def Let_def connectToWiFi_link_down [OF assms] op_defs assms)

lemma stage_read_frame [simp]:
  "lastSendTime (stage_read env t s) = lastSendTime s"
  "mlxConnected (stage_read env t s) = mlxConnected s"
  "poxConnected (stage_read env t s) = poxConnected s"
  "wifiConnected (stage_read env t s) = wifiConnected s"
  by (simp_all add: stage_read_def Let_def)

lemma stage_read_quiet [simp]:
  "serial_docs (trace (stage_read env t s)) = serial_docs (trace s)"
  "http_posts (trace (stage_read env t s)) = http_posts (trace s)"
  by (simp_all add: stage_read_def Let_def)

lemma stage_read_vitals:
  "vitals (stage_read env t s) =
     (if t - lastReadTime s \<ge> READ_INTERVAL then vitals (readAllSensors env s) else vitals s)"
  by (simp add: stage_read_def Let_def)


lemma stage_read_now:
  "now (stage_read env t s) =
     (if t - lastReadTime s \<ge> READ_INTERVAL then now (readAllSensors env s) else now s)"
  by (simp add: stage_read_def Let_def)

lemma stage_read_now_mono: "now s \<le> now (stage_read env t s)"
  by (simp add: stage_read_now readAllSensors_now_mono)


lemma stage_send_frame [simp]:
  "vitals (stage_send env t s) = vitals s"
  "lastReadTime (stage_send env t s) = lastReadTime s"
  "mlxConnected (stage_send env t s) = mlxConnected s"
  "poxConnected (stage_send env t s) = poxConnected s"
  "wifiConnected (stage_send env t s) = wifiConnected s"
  by (simp_all add: stage_send_def Let_def)

lemma stage_send_quiet [simp]:
  "serial_docs (trace (stage_send env t s)) = serial_docs (trace s)"
  "analog_readings pin (trace (stage_send env t s)) = analog_readings pin (trace s)"
  by (simp_all add: stage_send_def Let_def sendVitalDataToAPI_trace)

lemma stage_send_disconnected:
  "\<not> wifiConnected s \<Longrightarrow> stage_send env t s = s"
  by (simp add: stage_send_def)

lemma stage_send_now_mono: "now s \<le> now (stage_send env t s)"
  by (simp add: stage_send_def Let_def sendVitalDataToAPI_now_mono)


section \<open>Loop iterations\<close>


lemma loop_serial_flags [simp]:
  "mlxConnected (loop_serial env s) = mlxConnected s"
  "poxConnected (loop_serial env s) = poxConnected s"
  by (simp_all add: loop_serial_stages)

lemma loop_serial_vitals:
  "vitals (loop_serial env s) =
     (if word_of_nat (now s) - lastReadTime s \<ge> READ_INTERVAL
      then vitals (readAllSensors env (emit env (Millis (word_of_nat (now s))) 0 s))
      else vitals s)"
  by (simp add: loop_serial_stages stage_serial_sample_vitals)

lemma loop_serial_docs:
  "serial_docs (trace (loop_serial env s)) =
     serial_docs (trace s) @
     (if word_of_nat (now s) - lastReadTime s \<ge> READ_INTERVAL
      then [serial_doc env (readAllSensors env (emit env (Millis (word_of_nat (now s))) 0 s))]
      else [])"
  by (simp add: loop_serial_stages stage_serial_sample_docs)

lemma loop_serial_now_mono: "now s \<le> now (loop_serial env s)"
proof -
  let ?s1 = "emit env (Millis (word_of_nat (now s))) 0 s"
  have "now s \<le> now ?s1" by simp
  also have "\<dots> \<le> now (stage_serial_sample env (word_of_nat (now s)) ?s1)"
    using stage_serial_sample_now [where env = env and t = "word_of_nat (now s)" and s = ?s1]
      readAllSensors_now_mono [where s = ?s1 and env = env]
    by (simp split: if_splits)
  also have "\<dots> \<le> now (loop_serial env s)"
    by (simp add: loop_serial_stages stage_pox_update_now_mono)
  finally show ?thesis .
qed


lemma loop_wifi_flags [simp]:
  "mlxConnected (loop_wifi env s) = mlxConnected s"
  "poxConnected (loop_wifi env s) = poxConnected s"
  by (simp_all add: loop_wifi_stages delay_def)




lemma loop_wifi_disconnected:
  assumes "\<not> wifiConnected (loop_wifi env s)"
  shows "http_posts (trace (loop_wifi env s)) = http_posts (trace s)"
    and "lastSendTime (loop_wifi env s) = lastSendTime s"
  using assms by (simp_all add: loop_wifi_stages delay_def stage_send_disconnected)


lemma loop_wifi_now_mono: "now s \<le> now (loop_wifi env s)"
proof -
  let ?t = "word_of_nat (now s) :: 32 word"
  let ?s1 = "emit env (Millis ?t) 0 s"
  let ?s3 = "stage_link env (fst (wifiStatus env ?s1)) (snd (wifiStatus env ?s1))"
  let ?s4 = "stage_read env ?t ?s3"
  let ?s5 = "stage_send env ?t ?s4"
  have "now s \<le> now (snd (wifiStatus env ?s1))" by simp
  also have "\<dots> \<le> now ?s3" by (rule stage_link_now_mono)
  also have "\<dots> \<le> now ?s4" by (rule stage_read_now_mono)
  also have "\<dots> \<le> now ?s5" by (rule stage_send_now_mono)
  also have "\<dots> \<le> now (stage_pox_update env ?s5)" by (rule stage_pox_update_now_mono)
  also have "\<dots> \<le> now (loop_wifi env s)" by (simp add: loop_wifi_stages delay_def)
  finally show ?thesis .
qed




section \<open>Start-up\<close>

lemma setup_serial_wait_effect:
  assumes "setup_serial_wait env s = Some s'"
  shows "vitals s' = vitals s \<and> mlxConnected s' = mlxConnected s \<and>
         poxConnected s' = poxConnected s \<and>
         serial_docs (trace s') = serial_docs (trace s) \<and>
         mlx_probes (trace s') = mlx_probes (trace s) \<and>
         pox_probes (trace s') = pox_probes (trace s)"
proof (rule setup_serial_wait.raw_induct
    [where P = "\<lambda>env s s'. vitals s' = vitals s \<and> mlxConnected s' = mlxConnected s \<and>
         poxConnected s' = poxConnected s \<and>
         serial_docs (trace s') = serial_docs (trace s) \<and>
         mlx_probes (trace s') = mlx_probes (trace s) \<and>
         pox_probes (trace s') = pox_probes (trace s)", OF _ assms])
  fix wait :: "env \<Rightarrow> sys \<Rightarrow> sys option" and env s s'
  assume IH: "\<And>e t y. wait e t = Some y \<Longrightarrow>
      vitals y = vitals t \<and> mlxConnected y = mlxConnected t \<and>
      poxConnected y = poxConnected t \<and>
      serial_docs (trace y) = serial_docs (trace t) \<and>
      mlx_probes (trace y) = mlx_probes (trace t) \<and>
      pox_probes (trace y) = pox_probes (trace t)"
    and step: "(case serialReady env s of
                 (ready, s1) \<Rightarrow> if \<not> ready then wait env (delay env 10 s1) else Some s1)
               = Some s'"
  show "vitals s' = vitals s \<and> mlxConnected s' = mlxConnected s \<and>
         poxConnected s' = poxConnected s \<and>
         serial_docs (trace s') = serial_docs (trace s) \<and>
         mlx_probes (trace s') = mlx_probes (trace s) \<and>
         pox_probes (trace s') = pox_probes (trace s)"
  proof (cases "serial_ready env (length (trace s))")
    case True
    with step show ?thesis
      by (auto simp add: serialReady_def Let_def)
  next
    case False
    with step have "wait env (delay env 10 (emit env (SerialReady False) 0 s)) = Some s'"
      by (simp add: serialReady_def Let_def)
    from IH [OF this] show ?thesis
      by (simp add: delay_def)
  qed
qed

lemma setup_serial_result:
  assumes "setup_serial env boot = Some s0"
  shows "vitals s0 = vitals boot"
    and "serial_docs (trace s0) = []"
    and "mlx_probes (trace s0) = [mlxConnected s0]"
    and "pox_probes (trace s0) = [poxConnected s0]"
proof -
  obtain s1 where s1: "setup_serial_wait env (serialBegin env 115200 boot) = Some s1"
    using assms by (auto simp add: setup_serial_def split: option.splits)
  note eff = setup_serial_wait_effect [OF s1]
  have b: "mlxConnected s1 = False" "poxConnected s1 = False" "vitals s1 = vitals boot"
    "serial_docs (trace s1) = []" "mlx_probes (trace s1) = []" "pox_probes (trace s1) = []"
    using eff by (simp_all add: boot_def serialBegin_def)
  show "vitals s0 = vitals boot"
    using assms s1 by (auto simp add: setup_serial_def op_defs Let_def b split: if_splits)
  show "serial_docs (trace s0) = []"
    using assms s1 by (auto simp add: setup_serial_def op_defs Let_def b split: if_splits)
  show "mlx_probes (trace s0) = [mlxConnected s0]"
    using assms s1 by (auto simp add: setup_serial_def op_defs Let_def b split: if_splits)
  show "pox_probes (trace s0) = [poxConnected s0]"
    using assms s1 by (auto simp add: setup_serial_def op_defs Let_def b split: if_splits)
qed


section \<open>Sessions of the serial variant\<close>

lemma session_serial_flags:
  "mlxConnected ((loop_serial env ^^ n) s) = mlxConnected s \<and>
   poxConnected ((loop_serial env ^^ n) s) = poxConnected s"
  by (induction n) simp_all

lemma session_serial_no_mlx:
  assumes "\<not> mlxConnected s" and "temperature (vitals s) = 0"
    and "\<forall>d \<in> set (serial_docs (trace s)). \<not> doc_sensors_mlx90614 d"
  shows "temperature (vitals ((loop_serial env ^^ n) s)) = 0 \<and>
         (\<forall>d \<in> set (serial_docs (trace ((loop_serial env ^^ n) s))). \<not> doc_sensors_mlx90614 d)"
proof (induction n)
  case 0
  with assms show ?case by simp
next
  case (Suc n)
  have "\<not> mlxConnected ((loop_serial env ^^ n) s)"
    using assms(1) by (simp add: session_serial_flags)
  with Suc show ?case
    by (simp add: loop_serial_vitals loop_serial_docs readAllSensors_absent serial_doc_def)
qed

lemma session_serial_no_pox:
  assumes "\<not> poxConnected s" and "heartRate (vitals s) = 0" and "oxygenSaturation (vitals s) = 0"
    and "\<forall>d \<in> set (serial_docs (trace s)).
           \<not> doc_sensors_max30100 d \<and> doc_hr d = 0 \<and> doc_spo2 d = 0"
  shows "heartRate (vitals ((loop_serial env ^^ n) s)) = 0 \<and>
         oxygenSaturation (vitals ((loop_serial env ^^ n) s)) = 0 \<and>
         (\<forall>d \<in> set (serial_docs (trace ((loop_serial env ^^ n) s))).
            \<not> doc_sensors_max30100 d \<and> doc_hr d = 0 \<and> doc_spo2 d = 0)"
proof (induction n)
  case 0
  with assms show ?case by simp
next
  case (Suc n)
  have "\<not> poxConnected ((loop_serial env ^^ n) s)"
    using assms(1) by (simp add: session_serial_flags)
  with Suc show ?case
    by (simp add: loop_serial_vitals loop_serial_docs readAllSensors_absent serial_doc_def)
qed

section \<open>Sessions of the network variant\<close>

lemma stage_send_posts:
  "http_posts (trace (stage_send env t s)) =
     http_posts (trace s) @
     (if wifiConnected s \<and> SEND_INTERVAL \<le> t - lastSendTime s
      then [(api_doc env s, api_response env s)] else [])"
  by (simp add: stage_send_def Let_def sendVitalDataToAPI_trace)

lemma api_doc_fields [simp]:
  "doc_sensors_mlx90614 (api_doc env s) = mlxConnected s"
  "doc_sensors_max30100 (api_doc env s) = poxConnected s"
  "doc_hr (api_doc env s) = heartRate (vitals s)"
  "doc_spo2 (api_doc env s) = oxygenSaturation (vitals s)"
  "doc_ecg (api_doc env s) = ecgValue (vitals s)"
  "doc_timestamp (api_doc env s) = timestamp (vitals s)"
  by (simp_all add: api_doc_def serial_doc_def)

lemma loop_wifi_posts:
  "\<exists>s4. mlxConnected s4 = mlxConnected s \<and> poxConnected s4 = poxConnected s \<and>
        vitals s4 = vitals (loop_wifi env s) \<and>
        (http_posts (trace (loop_wifi env s)) = http_posts (trace s) \<or>
         http_posts (trace (loop_wifi env s)) =
           http_posts (trace s) @ [(api_doc env s4, api_response env s4)])"
proof -
  let ?t = "word_of_nat (now s) :: 32 word"
  let ?s1 = "emit env (Millis ?t) 0 s"
  let ?s3 = "stage_link env (fst (wifiStatus env ?s1)) (snd (wifiStatus env ?s1))"
  let ?s4 = "stage_read env ?t ?s3"
  have "mlxConnected ?s4 = mlxConnected s" "poxConnected ?s4 = poxConnected s" by simp_all
  moreover have "vitals ?s4 = vitals (loop_wifi env s)"
    by (simp add: loop_wifi_stages delay_def)
  moreover have "http_posts (trace (loop_wifi env s)) = http_posts (trace s) \<or>
         http_posts (trace (loop_wifi env s)) =
           http_posts (trace s) @ [(api_doc env ?s4, api_response env ?s4)]"
    by (simp add: loop_wifi_stages delay_def stage_send_posts)
  ultimately show ?thesis by blast
qed

lemma loop_wifi_vitals_absent:
  "\<not> mlxConnected s \<Longrightarrow> temperature (vitals s) = 0 \<Longrightarrow>
     temperature (vitals (loop_wifi env s)) = 0"
  "\<not> poxConnected s \<Longrightarrow> heartRate (vitals s) = 0 \<Longrightarrow>
     heartRate (vitals (loop_wifi env s)) = 0"
  "\<not> poxConnected s \<Longrightarrow> oxygenSaturation (vitals s) = 0 \<Longrightarrow>
     oxygenSaturation (vitals (loop_wifi env s)) = 0"
  by (simp_all add: loop_wifi_stages delay_def stage_read_vitals readAllSensors_absent)

lemma session_wifi_flags:
  "mlxConnected ((loop_wifi env ^^ n) s) = mlxConnected s \<and>
   poxConnected ((loop_wifi env ^^ n) s) = poxConnected s"
  by (induction n) simp_all

lemma session_wifi_no_mlx:
  assumes "\<not> mlxConnected s" and "temperature (vitals s) = 0"
    and "\<forall>(d, c) \<in> set (http_posts (trace s)). \<not> doc_sensors_mlx90614 d"
  shows "temperature (vitals ((loop_wifi env ^^ n) s)) = 0 \<and>
         (\<forall>(d, c) \<in> set (http_posts (trace ((loop_wifi env ^^ n) s))).
            \<not> doc_sensors_mlx90614 d)"
proof (induction n)
  case 0
  with assms show ?case by simp
next
  case (Suc n)
  let ?s = "(loop_wifi env ^^ n) s"
  have f: "\<not> mlxConnected ?s"
    using assms(1) by (simp add: session_wifi_flags)
  obtain s4 where s4: "mlxConnected s4 = mlxConnected ?s"
    "http_posts (trace (loop_wifi env ?s)) = http_posts (trace ?s) \<or>
     http_posts (trace (loop_wifi env ?s)) =
       http_posts (trace ?s) @ [(api_doc env s4, api_response env s4)]"
    using loop_wifi_posts [where env = env and s = ?s] by blast
  from Suc f s4 show ?case
    by (auto simp add: loop_wifi_vitals_absent)
qed

lemma session_wifi_no_pox:
  assumes "\<not> poxConnected s" and "heartRate (vitals s) = 0"
    and "oxygenSaturation (vitals s) = 0"
    and "\<forall>(d, c) \<in> set (http_posts (trace s)).
           \<not> doc_sensors_max30100 d \<and> doc_hr d = 0 \<and> doc_spo2 d = 0"
  shows "heartRate (vitals ((loop_wifi env ^^ n) s)) = 0 \<and>
         oxygenSaturation (vitals ((loop_wifi env ^^ n) s)) = 0 \<and>
         (\<forall>(d, c) \<in> set (http_posts (trace ((loop_wifi env ^^ n) s))).
            \<not> doc_sensors_max30100 d \<and> doc_hr d = 0 \<and> doc_spo2 d = 0)"
proof (induction n)
  case 0
  with assms show ?case by simp
next
  case (Suc n)
  let ?s = "(loop_wifi env ^^ n) s"
  have f: "\<not> poxConnected ?s"
    using assms(1) by (simp add: session_wifi_flags)
  obtain s4 where s4: "poxConnected s4 = poxConnected ?s"
    "vitals s4 = vitals (loop_wifi env ?s)"
    "http_posts (trace (loop_wifi env ?s)) = http_posts (trace ?s) \<or>
     http_posts (trace (loop_wifi env ?s)) =
       http_posts (trace ?s) @ [(api_doc env s4, api_response env s4)]"
    using loop_wifi_posts [where env = env and s = ?s] by blast
  have v: "heartRate (vitals (loop_wifi env ?s)) = 0"
    "oxygenSaturation (vitals (loop_wifi env ?s)) = 0"
    using Suc f by (simp_all add: loop_wifi_vitals_absent)
  from Suc f s4 v show ?case
    by auto
qed

lemma setup_wifi_result:
  "vitals (setup_wifi env boot) = vitals boot"
  "http_posts (trace (setup_wifi env boot)) = []"
  "mlx_probes (trace (setup_wifi env boot)) = [mlxConnected (setup_wifi env boot)]"
  "pox_probes (trace (setup_wifi env boot)) = [poxConnected (setup_wifi env boot)]"
  by (simp_all add: setup_wifi_def op_defs Let_def boot_def)

text \<open>
  The network variant treats an absent sensor as the serial variant does: the flags
  are the probe results of \<^verbatim>\<open>setup\<close> and every iteration preserves them; with a
  flag false the snapshot's field is 0 and every record posted reports the sensor as
  absent.
\<close>

lemma absent_sensor_reports_zero_network:
  "mlx_probes (trace (setup_wifi env boot)) = [mlxConnected (setup_wifi env boot)] \<and>
   pox_probes (trace (setup_wifi env boot)) = [poxConnected (setup_wifi env boot)] \<and>
   mlxConnected ((loop_wifi env ^^ n) (setup_wifi env boot)) =
     mlxConnected (setup_wifi env boot) \<and>
   poxConnected ((loop_wifi env ^^ n) (setup_wifi env boot)) =
     poxConnected (setup_wifi env boot) \<and>
   (\<not> mlxConnected (setup_wifi env boot) \<longrightarrow>
      temperature (vitals ((loop_wifi env ^^ n) (setup_wifi env boot))) = 0 \<and>
      (\<forall>(d, c) \<in> set (http_posts (trace ((loop_wifi env ^^ n) (setup_wifi env boot)))).
         \<not> doc_sensors_mlx90614 d)) \<and>
   (\<not> poxConnected (setup_wifi env boot) \<longrightarrow>
      heartRate (vitals ((loop_wifi env ^^ n) (setup_wifi env boot))) = 0 \<and>
      oxygenSaturation (vitals ((loop_wifi env ^^ n) (setup_wifi env boot))) = 0 \<and>
      (\<forall>(d, c) \<in> set (http_posts (trace ((loop_wifi env ^^ n) (setup_wifi env boot)))).
         \<not> doc_sensors_max30100 d \<and> doc_hr d = 0 \<and> doc_spo2 d = 0))"
proof -
  let ?s0 = "setup_wifi env boot"
  note r = setup_wifi_result [where env = env]
  have z: "temperature (vitals ?s0) = 0" "heartRate (vitals ?s0) = 0"
    "oxygenSaturation (vitals ?s0) = 0"
    by (simp_all only: r(1)) (simp_all add: boot_def)
  show ?thesis
    using session_wifi_no_mlx [where s = ?s0 and env = env and n = n]
      session_wifi_no_pox [where s = ?s0 and env = env and n = n]
      session_wifi_flags [where s = ?s0 and env = env and n = n] z r(2,3,4)
    by simp
qed

section \<open>The time of the last sample\<close>

text \<open>
  After an iteration that takes a sample, the snapshot's timestamp is the time \<open>T'\<close>
  of the stamping reduced modulo \<open>2 ^ 32\<close>, and \<open>T'\<close> lies strictly before the end
  of the iteration (\<open>loop_serial_stamp\<close>, \<open>loop_wifi_stamp\<close>). An iteration that
  takes no sample keeps the snapshot, and time does not run backwards.
\<close>

lemma loop_serial_keeps_stamp:
  assumes "timestamp (vitals s) = word_of_nat T" and "T < now s"
    and "\<not> READ_INTERVAL \<le> word_of_nat (now s) - lastReadTime s"
  shows "vitals (loop_serial env s) = vitals s" and "T < now (loop_serial env s)"
  using assms loop_serial_now_mono [of s env] by (simp_all add: loop_serial_vitals)

lemma loop_wifi_keeps_stamp:
  assumes "timestamp (vitals s) = word_of_nat T" and "T < now s"
    and "\<not> READ_INTERVAL \<le> word_of_nat (now s) - lastReadTime s"
  shows "vitals (loop_wifi env s) = vitals s" and "T < now (loop_wifi env s)"
  using assms loop_wifi_now_mono [of s env]
  by (simp_all add: loop_wifi_stages delay_def stage_read_vitals)

section \<open>Facts about the concrete environments and states\<close>

lemma bench_env_simps [simp]:
  "latency bench_env = (\<lambda>k. 0)"
  "serial_ready bench_env = (\<lambda>k. True)"
  "mlx_begin bench_env = (\<lambda>k. False)"
  "pox_begin bench_env = (\<lambda>k. False)"
  "mlx_readObjectTempC bench_env = (\<lambda>k. 0)"
  "pox_getHeartRate bench_env = (\<lambda>k. 1132068864)"
  "int_of_unrepresentable bench_env = (\<lambda>w. 0)"
  "pox_getSpO2 bench_env = (\<lambda>k. 98)"
  "digital_in bench_env = (\<lambda>pin k. False)"
  "analog_in bench_env = (\<lambda>pin k. if pin = BP_SENSOR_PIN then 4095 else 1234)"
  "wifi_status_connected bench_env = (\<lambda>k. False)"
  "http_POST bench_env = (\<lambda>k doc. 0)"
  "round_tenths bench_env = (\<lambda>t. 0)"
  by (simp_all add: bench_env_def)

lemma setup_serial_wait_ready:
  "serial_ready env (length (trace s)) \<Longrightarrow>
     setup_serial_wait env s = Some (emit env (SerialReady True) 0 s)"
  by (subst setup_serial_wait.simps) (simp add: serialReady_def Let_def)

lemma setup_serial_wait_returns:
  "serial_ready env (length (trace s) + 2 * j) \<Longrightarrow> setup_serial_wait env s \<noteq> None"
proof (induction j arbitrary: s)
  case 0
  then show ?case by (simp add: setup_serial_wait_ready)
next
  case (Suc j)
  show ?case
  proof (cases "serial_ready env (length (trace s))")
    case True
    then show ?thesis by (simp add: setup_serial_wait_ready)
  next
    case False
    have "setup_serial_wait env (delay env 10 (emit env (SerialReady False) 0 s)) \<noteq> None"
      using Suc.prems by (intro Suc.IH) (simp add: delay_def)
    with False show ?thesis
      by (subst setup_serial_wait.simps) (simp add: serialReady_def Let_def)
  qed
qed

lemma setup_serial_returns:
  "serial_ready env (Suc (length (trace s)) + 2 * j) \<Longrightarrow> setup_serial env s \<noteq> None"
  using setup_serial_wait_returns [where env = env and s = "serialBegin env 115200 s" and j = j]
  by (auto simp add: setup_serial_def serialBegin_def Let_def case_prod_beta split: option.splits)

lemma readAllSensors_timestamp_zero_latency:
  assumes "latency env = (\<lambda>k. 0)"
  shows "timestamp (vitals (readAllSensors env s)) = word_of_nat (now s)"
  by (simp add: readAllSensors_stages stage_vitals stage_now assms)


lemma loop_wifi_link_down_flag:
  assumes "latency env = (\<lambda>k. 0)" and "wifi_status_connected env = (\<lambda>k. False)"
  shows "\<not> wifiConnected (loop_wifi env s)"
  by (simp add: loop_wifi_stages delay_def assms stage_link_down [OF assms])



lemma link_down_start_samples: "analog_readings BP_SENSOR_PIN (trace link_down_start) = []"
  by (simp add: link_down_start_def setup_wifi_def op_defs Let_def boot_def)

lemma serial_start_eq: "setup_serial slow_env boot = Some serial_start"
  by (simp add: serial_start_def setup_serial_def setup_serial_wait_ready slow_env_def op_defs)

lemma serial_start_facts:
  "now serial_start = 6000" "lastReadTime serial_start = 0"
  "\<not> mlxConnected serial_start" "\<not> poxConnected serial_start"
  "serial_docs (trace serial_start) = []"
  by (simp_all add: serial_start_def setup_serial_def setup_serial_wait_ready slow_env_def
      op_defs Let_def boot_def)




section \<open>The claims\<close>




text \<open>
  C2 (as amended). When the pulse oximeter is present, \<^verbatim>\<open>readAllSensors\<close> reads the
  heart rate once and the oxygen saturation once. The heart rate is a \<^verbatim>\<open>float\<close>
  and the assignment to \<open>heartRate\<close> discards its fractional part: the snapshot
  holds the integer obtained if it lies in \<open>[30, 200]\<close> and 0 otherwise. For a
  reading that has a value whose integer part fits \<^verbatim>\<open>int\<close>, the snapshot therefore
  holds the reading rounded towards zero if the reading is at least 30 and less than
  201, and 0 otherwise. The snapshot holds the saturation read if it lies in
  \<open>[70, 100]\<close> and 0 otherwise.
\<close>

theorem pulse_ox_plausibility_filter:
  assumes "poxConnected s"
  shows "\<exists>hr sp.
     heart_rate_readings (trace (readAllSensors env s)) = heart_rate_readings (trace s) @ [hr] \<and>
     spo2_readings (trace (readAllSensors env s)) = spo2_readings (trace s) @ [sp] \<and>
     heartRate (vitals (readAllSensors env s)) =
       (if 30 \<le> float_to_int env hr \<and> float_to_int env hr \<le> 200
        then float_to_int env hr else 0) \<and>
     (float32_finite hr \<and> - (2 ^ 31) \<le> c_trunc (float32_value hr) \<and>
      c_trunc (float32_value hr) < 2 ^ 31 \<longrightarrow>
        heartRate (vitals (readAllSensors env s)) =
          (if 30 \<le> float32_value hr \<and> float32_value hr < 201 then \<lfloor>float32_value hr\<rfloor>
           else 0)) \<and>
     oxygenSaturation (vitals (readAllSensors env s)) =
       (if 70 \<le> uint sp \<and> uint sp \<le> 100 then uint sp else 0)"
proof -
  let ?hr = "pox_getHeartRate env (length (trace (stage_temperature env s)))"
  have v: "heartRate (vitals (readAllSensors env s)) =
       (if float_to_int env ?hr < 30 \<or> float_to_int env ?hr > 200 then 0
        else float_to_int env ?hr)"
    using assms by (simp add: readAllSensors_stages stage_vitals Let_def)
  have "float32_finite ?hr \<and> - (2 ^ 31) \<le> c_trunc (float32_value ?hr) \<and>
      c_trunc (float32_value ?hr) < 2 ^ 31 \<longrightarrow>
        heartRate (vitals (readAllSensors env s)) =
          (if 30 \<le> float32_value ?hr \<and> float32_value ?hr < 201 then \<lfloor>float32_value ?hr\<rfloor>
           else 0)"
    unfolding v by (simp add: float_to_int_filter)
  moreover have "heartRate (vitals (readAllSensors env s)) =
       (if 30 \<le> float_to_int env ?hr \<and> float_to_int env ?hr \<le> 200
        then float_to_int env ?hr else 0)"
    unfolding v by auto
  moreover have "heart_rate_readings (trace (readAllSensors env s)) =
       heart_rate_readings (trace s) @ [?hr]"
    using assms by (simp add: readAllSensors_stages stage_trace)
  moreover have "\<exists>sp. spo2_readings (trace (readAllSensors env s)) =
         spo2_readings (trace s) @ [sp] \<and>
       oxygenSaturation (vitals (readAllSensors env s)) =
         (if 70 \<le> uint sp \<and> uint sp \<le> 100 then uint sp else 0)"
    using assms by (simp add: readAllSensors_stages stage_trace stage_vitals Let_def)
  ultimately show ?thesis by blast
qed

text \<open>
  C2 as stated fails for a heart rate with a fractional part just above the range:
  the reading 200.5 is outside \<open>[30, 200]\<close>, and the snapshot holds 200, which is
  neither 0 nor the reading.
\<close>

theorem fractional_heart_rate_is_truncated:
  "poxConnected pox_state \<and>
   heart_rate_readings (trace (readAllSensors edge_env pox_state)) = [1128824832] \<and>
   float32_value 1128824832 = 401 / 2 \<and>
   (200 :: rat) < 401 / 2 \<and>
   heartRate (vitals (readAllSensors edge_env pox_state)) = 200"
  by (simp add: readAllSensors_stages stage_trace stage_vitals pox_state_def boot_def
      edge_env_def float32_value_examples float_to_int_examples)

theorem pulse_ox_plausibility_filter_witness:
  "poxConnected pox_state \<and>
   heart_rate_readings (trace (readAllSensors resting_env pox_state)) = [1116798976] \<and>
   float32_value 1116798976 = 145 / 2 \<and>
   heartRate (vitals (readAllSensors resting_env pox_state)) = 72 \<and>
   heart_rate_readings (trace (readAllSensors bench_env pox_state)) = [1132068864] \<and>
   float32_value 1132068864 = 250 \<and>
   heartRate (vitals (readAllSensors bench_env pox_state)) = 0 \<and>
   spo2_readings (trace (readAllSensors bench_env pox_state)) = [98] \<and>
   oxygenSaturation (vitals (readAllSensors bench_env pox_state)) = 98"
proof -
  have p: "poxConnected pox_state" by (simp add: pox_state_def)
  have r: "heart_rate_readings (trace (readAllSensors resting_env pox_state)) = [1116798976]"
    "heart_rate_readings (trace (readAllSensors bench_env pox_state)) = [1132068864]"
    "spo2_readings (trace (readAllSensors bench_env pox_state)) = [98]"
    "heart_rate_readings (trace pox_state) = []" "spo2_readings (trace pox_state) = []"
    by (simp_all add: readAllSensors_stages stage_trace pox_state_def boot_def resting_env_def)
  have f: "c_trunc (145 / 2) = 72" "c_trunc 250 = 250" "\<lfloor>145 / 2 :: rat\<rfloor> = 72"
    by (simp_all add: c_trunc_def floor_eq_iff)
  from pulse_ox_plausibility_filter [OF p, of resting_env] r float32_value_examples f
  have a: "heartRate (vitals (readAllSensors resting_env pox_state)) = 72"
    by auto
  from pulse_ox_plausibility_filter [OF p, of bench_env] r float32_value_examples f
  have b: "heartRate (vitals (readAllSensors bench_env pox_state)) = 0"
    "oxygenSaturation (vitals (readAllSensors bench_env pox_state)) = 98"
    by auto
  from a b r p float32_value_examples show ?thesis by simp
qed

text \<open>
  C3. In the serial variant, let \<^verbatim>\<open>setup\<close> return in state \<open>s0\<close>. Each sensor was
  probed once and its presence flag is the result of that probe. After any number
  \<open>n\<close> of loop iterations both flags are what they were after \<^verbatim>\<open>setup\<close>. If the
  temperature sensor was absent, the snapshot's temperature is 0 and every record
  written so far reports \<^verbatim>\<open>sensors.mlx90614\<close> as false; if the pulse oximeter was
  absent, the snapshot's heart rate and oxygen saturation are 0 and every record
  written so far reports \<^verbatim>\<open>hr = 0\<close>, \<^verbatim>\<open>spo2 = 0\<close> and \<^verbatim>\<open>sensors.max30100\<close> as
  false.
\<close>

theorem absent_sensor_reports_zero:
  assumes "setup_serial env boot = Some s0"
  shows "mlx_probes (trace s0) = [mlxConnected s0] \<and>
         pox_probes (trace s0) = [poxConnected s0] \<and>
         mlxConnected ((loop_serial env ^^ n) s0) = mlxConnected s0 \<and>
         poxConnected ((loop_serial env ^^ n) s0) = poxConnected s0 \<and>
         (\<not> mlxConnected s0 \<longrightarrow>
            temperature (vitals ((loop_serial env ^^ n) s0)) = 0 \<and>
            (\<forall>d \<in> set (serial_docs (trace ((loop_serial env ^^ n) s0))).
               \<not> doc_sensors_mlx90614 d)) \<and>
         (\<not> poxConnected s0 \<longrightarrow>
            heartRate (vitals ((loop_serial env ^^ n) s0)) = 0 \<and>
            oxygenSaturation (vitals ((loop_serial env ^^ n) s0)) = 0 \<and>
            (\<forall>d \<in> set (serial_docs (trace ((loop_serial env ^^ n) s0))).
               \<not> doc_sensors_max30100 d \<and> doc_hr d = 0 \<and> doc_spo2 d = 0))"
proof -
  note r = setup_serial_result [OF assms]
  have z: "temperature (vitals s0) = 0" "heartRate (vitals s0) = 0"
    "oxygenSaturation (vitals s0) = 0"
    by (simp_all add: r(1) boot_def)
  have "\<not> mlxConnected s0 \<longrightarrow>
            temperature (vitals ((loop_serial env ^^ n) s0)) = 0 \<and>
            (\<forall>d \<in> set (serial_docs (trace ((loop_serial env ^^ n) s0))).
               \<not> doc_sensors_mlx90614 d)"
    using session_serial_no_mlx [where s = s0 and env = env and n = n] z r(2) by simp
  moreover have "\<not> poxConnected s0 \<longrightarrow>
            heartRate (vitals ((loop_serial env ^^ n) s0)) = 0 \<and>
            oxygenSaturation (vitals ((loop_serial env ^^ n) s0)) = 0 \<and>
            (\<forall>d \<in> set (serial_docs (trace ((loop_serial env ^^ n) s0))).
               \<not> doc_sensors_max30100 d \<and> doc_hr d = 0 \<and> doc_spo2 d = 0)"
    using session_serial_no_pox [where s = s0 and env = env and n = n] z r(2) by simp
  ultimately show ?thesis
    using r(3,4) session_serial_flags [where env = env and n = n and s = s0] by simp
qed

theorem absent_sensor_reports_zero_witness:
  "setup_serial slow_env boot = Some serial_start \<and>
   mlx_probes (trace serial_start) = [False] \<and>
   pox_probes (trace serial_start) = [False] \<and>
   temperature (vitals (loop_serial slow_env serial_start)) = 0 \<and>
   heartRate (vitals (loop_serial slow_env serial_start)) = 0 \<and>
   oxygenSaturation (vitals (loop_serial slow_env serial_start)) = 0 \<and>
   length (serial_docs (trace (loop_serial slow_env serial_start))) = 1 \<and>
   True \<notin> doc_sensors_mlx90614 ` set (serial_docs (trace (loop_serial slow_env serial_start))) \<and>
   True \<notin> doc_sensors_max30100 ` set (serial_docs (trace (loop_serial slow_env serial_start)))"
proof -
  have l: "length (serial_docs (trace (loop_serial slow_env serial_start))) = 1"
    by (simp add: loop_serial_docs serial_start_facts)
  from absent_sensor_reports_zero [OF serial_start_eq, where n = 1] serial_start_facts(3,4)
    serial_start_eq l
  show ?thesis by auto
qed

text \<open>
  C4. \<^verbatim>\<open>readAllSensors\<close> reads each lead-off pin once. If either reads
  \<^verbatim>\<open>HIGH\<close>, the snapshot has \<open>ecgValue = 0\<close> and \<open>ecgLeadsConnected = false\<close> and
  the analog ECG channel is not read in that call; if both read \<^verbatim>\<open>LOW\<close>,
  \<open>ecgLeadsConnected = true\<close>.
\<close>

theorem ecg_leads_off_forces_zero:
  "\<exists>loPlus loMinus.
     digital_readings ECG_LO_PLUS_PIN (trace (readAllSensors env s)) =
       digital_readings ECG_LO_PLUS_PIN (trace s) @ [loPlus] \<and>
     digital_readings ECG_LO_MINUS_PIN (trace (readAllSensors env s)) =
       digital_readings ECG_LO_MINUS_PIN (trace s) @ [loMinus] \<and>
     (loPlus \<or> loMinus \<longrightarrow>
        ecgValue (vitals (readAllSensors env s)) = 0 \<and>
        \<not> ecgLeadsConnected (vitals (readAllSensors env s)) \<and>
        analog_readings ECG_OUTPUT_PIN (trace (readAllSensors env s)) =
          analog_readings ECG_OUTPUT_PIN (trace s)) \<and>
     (\<not> loPlus \<and> \<not> loMinus \<longrightarrow> ecgLeadsConnected (vitals (readAllSensors env s)))"
  by (simp add: readAllSensors_stages stage_trace stage_vitals)

theorem ecg_leads_off_forces_zero_witness:
  "digital_readings ECG_LO_PLUS_PIN (trace (readAllSensors leads_off_env boot)) = [True] \<and>
   ecgValue (vitals (readAllSensors leads_off_env boot)) = 0 \<and>
   \<not> ecgLeadsConnected (vitals (readAllSensors leads_off_env boot)) \<and>
   analog_readings ECG_OUTPUT_PIN (trace (readAllSensors leads_off_env boot)) = []"
proof -
  have r: "digital_readings ECG_LO_PLUS_PIN (trace (readAllSensors leads_off_env boot)) = [True]"
    "digital_readings ECG_LO_PLUS_PIN (trace boot) = []"
    "analog_readings ECG_OUTPUT_PIN (trace boot) = []"
    by (simp_all add: readAllSensors_stages stage_trace leads_off_env_def boot_def)
  from ecg_leads_off_forces_zero [of leads_off_env boot] r show ?thesis by auto
qed

text \<open>
  C5. In every snapshot that \<^verbatim>\<open>readAllSensors\<close> produces, \<open>bpDiastolic\<close> is
  \<open>bpSystolic - 40\<close>.
\<close>

theorem diastolic_is_systolic_minus_40:
  "bpDiastolic (vitals (readAllSensors env s)) = bpSystolic (vitals (readAllSensors env s)) - 40"
  by (simp add: readAllSensors_stages stage_vitals)

theorem diastolic_is_systolic_minus_40_witness:
  "bpSystolic (vitals (readAllSensors bench_env boot)) = 180 \<and>
   bpDiastolic (vitals (readAllSensors bench_env boot)) = 140"
proof -
  have "bpSystolic (vitals (readAllSensors bench_env boot)) = 180"
    by (simp add: readAllSensors_stages stage_vitals boot_def)
  with diastolic_is_systolic_minus_40 [of bench_env boot] show ?thesis by simp
qed

text \<open>
  C6. In the network variant, an iteration that ends with the connection flag false
  has made no HTTP POST and has left \<open>lastSendTime\<close> alone; the flag is written only
  by the link check at the start of an iteration, so this is the flag that guarded
  the transmission. \<^verbatim>\<open>sendVitalDataToAPI\<close> called with the flag false returns
  without any effect. The state has no queue: the snapshot that was not sent exists
  only in \<open>vitals\<close>, which the next sample overwrites.
\<close>

theorem no_post_while_disconnected:
  "(\<not> wifiConnected (loop_wifi env s) \<longrightarrow>
      http_posts (trace (loop_wifi env s)) = http_posts (trace s) \<and>
      lastSendTime (loop_wifi env s) = lastSendTime s) \<and>
   (\<not> wifiConnected s \<longrightarrow> sendVitalDataToAPI env s = s)"
  by (simp add: loop_wifi_disconnected sendVitalDataToAPI_disconnected)

theorem no_post_while_disconnected_witness:
  "\<not> wifiConnected (loop_wifi bench_env due_state) \<and>
   SEND_INTERVAL \<le> word_of_nat (now due_state) - lastSendTime due_state \<and>
   http_posts (trace (loop_wifi bench_env due_state)) = [] \<and>
   lastSendTime (loop_wifi bench_env due_state) = 0 \<and>
   \<not> wifiConnected boot \<and> sendVitalDataToAPI bench_env boot = boot"
proof -
  have a: "\<not> wifiConnected (loop_wifi bench_env due_state)"
    by (simp add: loop_wifi_link_down_flag)
  have b: "\<not> wifiConnected boot" "http_posts (trace due_state) = []"
    "lastSendTime due_state = 0"
    "SEND_INTERVAL \<le> word_of_nat (now due_state) - lastSendTime due_state"
    by (simp_all add: due_state_def boot_def)
  from no_post_while_disconnected [of bench_env due_state]
    no_post_while_disconnected [of bench_env boot] a b
  show ?thesis by simp
qed








text \<open>
  The same in the serial variant, for one iteration that starts 500 ms after the
  wrap-around and 1000 ms after the previous sample.
\<close>

lemma serial_timestamp_wraps_around:
  "timestamp (vitals wrap_state) = 4294966796 \<and>
   READ_INTERVAL \<le> word_of_nat (now wrap_state) - lastReadTime wrap_state \<and>
   timestamp (vitals (loop_serial bench_env wrap_state)) = 500 \<and>
   \<not> timestamp (vitals wrap_state) < timestamp (vitals (loop_serial bench_env wrap_state))"
proof -
  have a: "timestamp (vitals wrap_state) = 4294966796"
    "READ_INTERVAL \<le> word_of_nat (now wrap_state) - lastReadTime wrap_state"
    by (simp_all add: wrap_state_def boot_def)
  have b: "timestamp (vitals (loop_serial bench_env wrap_state)) = 500"
    by (simp add: loop_serial_vitals readAllSensors_timestamp_zero_latency wrap_state_def
        boot_def)
  show ?thesis by (simp add: a b)
qed


text \<open>
  C10. When both lead-off pins read \<^verbatim>\<open>LOW\<close>, \<^verbatim>\<open>readAllSensors\<close> reads the analog
  ECG channel once and the snapshot's \<open>ecgValue\<close> is that sample, whatever its
  value. The record that either variant publishes from this snapshot carries the
  same value as \<^verbatim>\<open>ecg\<close>.
\<close>

theorem ecg_value_is_raw_sample:
  "\<exists>loPlus loMinus.
     digital_readings ECG_LO_PLUS_PIN (trace (readAllSensors env s)) =
       digital_readings ECG_LO_PLUS_PIN (trace s) @ [loPlus] \<and>
     digital_readings ECG_LO_MINUS_PIN (trace (readAllSensors env s)) =
       digital_readings ECG_LO_MINUS_PIN (trace s) @ [loMinus] \<and>
     (\<not> loPlus \<and> \<not> loMinus \<longrightarrow>
        (\<exists>raw. analog_readings ECG_OUTPUT_PIN (trace (readAllSensors env s)) =
                 analog_readings ECG_OUTPUT_PIN (trace s) @ [raw] \<and>
               ecgValue (vitals (readAllSensors env s)) = uint raw \<and>
               map doc_ecg (serial_docs (trace (sendVitalData env (readAllSensors env s)))) =
                 map doc_ecg (serial_docs (trace s)) @ [uint raw] \<and>
               (wifiConnected s \<longrightarrow>
                  map (doc_ecg \<circ> fst)
                    (http_posts (trace (sendVitalDataToAPI env (readAllSensors env s)))) =
                  map (doc_ecg \<circ> fst) (http_posts (trace s)) @ [uint raw])))"
  by (simp add: readAllSensors_stages stage_trace stage_vitals sendVitalData_eq serial_doc_def
      sendVitalDataToAPI_trace api_doc_def)

theorem ecg_value_is_raw_sample_witness:
  "digital_readings ECG_LO_PLUS_PIN (trace (readAllSensors bench_env boot)) = [False] \<and>
   digital_readings ECG_LO_MINUS_PIN (trace (readAllSensors bench_env boot)) = [False] \<and>
   analog_readings ECG_OUTPUT_PIN (trace (readAllSensors bench_env boot)) = [1234] \<and>
   ecgValue (vitals (readAllSensors bench_env boot)) = 1234 \<and>
   map doc_ecg (serial_docs (trace (sendVitalData bench_env (readAllSensors bench_env boot)))) =
     [1234]"
proof -
  have r: "digital_readings ECG_LO_PLUS_PIN (trace (readAllSensors bench_env boot)) = [False]"
    "digital_readings ECG_LO_MINUS_PIN (trace (readAllSensors bench_env boot)) = [False]"
    "analog_readings ECG_OUTPUT_PIN (trace (readAllSensors bench_env boot)) = [1234]"
    "digital_readings ECG_LO_PLUS_PIN (trace boot) = []"
    "digital_readings ECG_LO_MINUS_PIN (trace boot) = []"
    "analog_readings ECG_OUTPUT_PIN (trace boot) = []"
    "serial_docs (trace boot) = []"
    by (simp_all add: readAllSensors_stages stage_trace boot_def)
  from ecg_value_is_raw_sample [of bench_env boot] r show ?thesis by auto
qed

end
